theory Spec2Isabelle
  imports Complex_Main "HOL-Library.AList" "HOL-Library.Product_Lexorder"
begin

section \<open>Python values\<close>

text \<open>
  A Python \<open>str\<close> is a sequence of Unicode code points; it is modelled as a list of
  natural numbers, so that \<open>length\<close> counts what \<open>len\<close> counts. The literals of the
  source are ASCII and are written as Isabelle strings under \<open>lit\<close>.
\<close>

type_synonym pystr = "nat list"

definition lit :: "string \<Rightarrow> pystr" where
  "lit s = map of_char s"

text \<open>
  Dictionaries are association lists in insertion order with string keys (every key of
  the source is an ASCII literal); \<open>AList.update\<close> is Python's \<open>d[k] = v\<close>: it replaces
  the value of an existing key in place and appends a new key at the end. The numbers of
  numpy (\<open>float32\<close>) are idealised as reals.
\<close>

datatype pyval =
    PNone
  | PInt int
  | PFloat real
  | PStr pystr
  | PList "pyval list"
  | PDict "(string \<times> pyval) list"

type_synonym pydict = "(string \<times> pyval) list"

definition dict_get :: "pydict \<Rightarrow> string \<Rightarrow> pyval \<Rightarrow> pyval" where
  \<comment> \<open>\<open>d.get(k, default)\<close>\<close>
  "dict_get d k dflt = (case map_of d k of Some v \<Rightarrow> v | None \<Rightarrow> dflt)"

definition dict_update :: "pydict \<Rightarrow> pydict \<Rightarrow> pydict" where
  \<comment> \<open>\<open>d.update(m)\<close>: the pairs of \<open>m\<close> are stored into \<open>d\<close> in order\<close>
  "dict_update d m = fold (\<lambda>(k, v) acc. AList.update k v acc) m d"

definition keys :: "pydict \<Rightarrow> string list" where
  "keys d = map fst d"

text \<open>
  \<open>text[i:j]\<close> for integer bounds: a negative bound counts from the end, and both bounds
  are clamped to the sequence.
\<close>

definition clamp_index :: "int \<Rightarrow> nat \<Rightarrow> nat" where
  "clamp_index i n = (if i < 0 then nat (max 0 (i + int n)) else min (nat i) n)"

definition slice :: "'a list \<Rightarrow> int \<Rightarrow> int \<Rightarrow> 'a list" where
  "slice xs i j =
     (let n = length xs; a = clamp_index i n; b = clamp_index j n
      in take (b - a) (drop a xs))"

text \<open>\<open>s.rfind(c)\<close> for a one-character \<open>c\<close>: the last index of \<open>c\<close> in \<open>s\<close>, or \<open>-1\<close>.\<close>

primrec rfind_from :: "nat \<Rightarrow> int \<Rightarrow> int \<Rightarrow> pystr \<Rightarrow> int" where
  "rfind_from c i found [] = found"
| "rfind_from c i found (x # xs) = rfind_from c (i + 1) (if x = c then i else found) xs"

definition rfind :: "pystr \<Rightarrow> nat \<Rightarrow> int" where
  "rfind s c = rfind_from c 0 (- 1) s"

section \<open>pdf_handler.py: cleaning and chunking\<close>

text \<open>
  The regular expressions of \<open>clean_text\<close> use the classes \<open>\s\<close> and \<open>\w\<close>, and \<open>strip\<close>
  uses the same whitespace class as \<open>\s\<close>. Both classes are tables of the Python
  runtime's Unicode database, not of this repository, so they are parameters of the
  model: \<open>isspace\<close> decides \<open>\s\<close>, and \<open>\w\<close> is \<open>isalnum\<close> or the underscore.
\<close>

record ucd =
  isspace :: "nat \<Rightarrow> bool"
  isalnum :: "nat \<Rightarrow> bool"

definition ascii_ucd :: ucd where
  \<comment> \<open>the two classes on ASCII text\<close>
  "ascii_ucd = \<lparr> isspace = (\<lambda>c. (9 \<le> c \<and> c \<le> 13) \<or> (28 \<le> c \<and> c \<le> 32)),
                 isalnum = (\<lambda>c. (48 \<le> c \<and> c \<le> 57) \<or> (65 \<le> c \<and> c \<le> 90) \<or> (97 \<le> c \<and> c \<le> 122)) \<rparr>"

function sub_whitespace :: "(nat \<Rightarrow> bool) \<Rightarrow> pystr \<Rightarrow> pystr" where
  \<comment> \<open>\<open>re.sub(r'\s+', ' ', text)\<close>: every maximal run of whitespace becomes one space\<close>
  "sub_whitespace sp [] = []"
| "sub_whitespace sp (c # cs) =
     (if sp c then 32 # sub_whitespace sp (dropWhile sp cs) else c # sub_whitespace sp cs)"
  by pat_completeness auto
termination
  by (relation "measure (\<lambda>(sp, s). length s)") (auto simp: less_Suc_eq_le length_dropWhile_le)

definition allowed :: "ucd \<Rightarrow> nat \<Rightarrow> bool" where
  \<comment> \<open>the class \<open>[\w\s.,!?;:()\-]\<close>\<close>
  "allowed u c = (isalnum u c \<or> c = 95 \<or> isspace u c \<or> c \<in> set (lit ''.,!?;:()-''))"

definition strip :: "(nat \<Rightarrow> bool) \<Rightarrow> pystr \<Rightarrow> pystr" where
  "strip sp s = rev (dropWhile sp (rev (dropWhile sp s)))"

definition clean_text :: "ucd \<Rightarrow> pystr \<Rightarrow> pystr" where
  "clean_text u text = strip (isspace u) (filter (allowed u) (sub_whitespace (isspace u) text))"

text \<open>
  One pass of the loop body of \<open>chunk_text\<close> up to the sentence-boundary adjustment:
  the chunk taken at \<open>start\<close> and the \<open>end\<close> that goes with it.
\<close>

definition sentence_end :: "pystr \<Rightarrow> int" where
  "sentence_end chunk = max (max (rfind chunk 46) (rfind chunk 63)) (rfind chunk 33)"

definition truncates :: "int \<Rightarrow> pystr \<Rightarrow> int \<Rightarrow> bool" where
  \<comment> \<open>both conditions of the source hold: the sentence-boundary truncation applies\<close>
  "truncates cs text start =
     (start + cs < int (length text) \<and> sentence_end (slice text start (start + cs)) > cs div 2)"

definition window :: "int \<Rightarrow> pystr \<Rightarrow> int \<Rightarrow> pystr \<times> int" where
  "window cs text start =
     (let end = start + cs;
          chunk = slice text start end
      in if end < int (length text) then
           (let se = sentence_end chunk
            in if se > cs div 2 then (slice chunk 0 (se + 1), start + se + 1)
               else (chunk, end))
         else (chunk, end))"

definition chunk_data :: "ucd \<Rightarrow> pydict \<Rightarrow> pystr \<Rightarrow> int \<Rightarrow> int \<Rightarrow> nat \<Rightarrow> pydict" where
  \<comment> \<open>the dictionary built for one chunk; \<open>if metadata:\<close> is false for \<open>None\<close> and for \<open>{}\<close>\<close>
  "chunk_data u metadata chunk start end n =
     (let d = [(''text'', PStr (strip (isspace u) chunk)),
               (''start_pos'', PInt start),
               (''end_pos'', PInt end),
               (''chunk_id'', PInt (int n))]
      in if metadata \<noteq> [] then dict_update d metadata else d)"

text \<open>
  The \<open>while\<close> loop. Nothing in the source bounds \<open>chunk_overlap\<close> by \<open>chunk_size\<close>, so the
  loop need not end; not returning is the value \<open>None\<close>.
\<close>

partial_function (option) chunk_loop ::
  "ucd \<Rightarrow> int \<Rightarrow> int \<Rightarrow> pydict \<Rightarrow> pystr \<Rightarrow> int \<Rightarrow> pydict list \<Rightarrow> pydict list option" where
  "chunk_loop u cs ov metadata text start chunks =
     (if start < int (length text) then
        (case window cs text start of (chunk, end) \<Rightarrow>
           chunk_loop u cs ov metadata text (end - ov)
             (chunks @ [chunk_data u metadata chunk start end (length chunks)]))
      else Some chunks)"

declare chunk_loop.simps [code]

definition chunk_text :: "ucd \<Rightarrow> int \<Rightarrow> int \<Rightarrow> pystr \<Rightarrow> pydict \<Rightarrow> pydict list option" where
  "chunk_text u cs ov text metadata = chunk_loop u cs ov metadata (clean_text u text) 0 []"

section \<open>Notions used to state the chunking properties\<close>




text \<open>
  The list of chunks that the loop appends when it is entered at \<open>start\<close> with \<open>n\<close> chunks
  already emitted, as a predicate on the list; and the start of the \<open>i\<close>-th window after
  the one at \<open>s\<close>.
\<close>

fun chained :: "ucd \<Rightarrow> int \<Rightarrow> int \<Rightarrow> pydict \<Rightarrow> pystr \<Rightarrow> int \<Rightarrow> nat \<Rightarrow> pydict list \<Rightarrow> bool" where
  "chained u cs ov m txt start n [] = (\<not> start < int (length txt))"
| "chained u cs ov m txt start n (d # ds) =
     (start < int (length txt) \<and>
      d = chunk_data u m (fst (window cs txt start)) start (snd (window cs txt start)) n \<and>
      chained u cs ov m txt (snd (window cs txt start) - ov) (Suc n) ds)"


text \<open>A text of 1201 characters with one sentence end at position 600.\<close>

definition two_sentences :: pystr where
  "two_sentences = replicate 600 97 @ 46 # replicate 600 97"

section \<open>Exceptions and the Python runtime\<close>

text \<open>
  An exception is a value: its class name and its message, the \<open>str(e)\<close> of the source.
  A call that can raise returns \<open>exn + 'a\<close>, with \<open>Inl\<close> for the exception. Only
  subclasses of \<open>Exception\<close> are modelled.
\<close>

datatype exn = Exn (kind: string) (msg: pystr)

fun try_map :: "('a \<Rightarrow> exn + 'b) \<Rightarrow> 'a list \<Rightarrow> exn + 'b list" where
  \<comment> \<open>a loop or comprehension over calls that can raise: the first exception ends it\<close>
  "try_map f [] = Inr []"
| "try_map f (x # xs) =
     (case f x of
        Inl e \<Rightarrow> Inl e
      | Inr y \<Rightarrow> (case try_map f xs of Inl e \<Rightarrow> Inl e | Inr ys \<Rightarrow> Inr (y # ys)))"

definition dict_item :: "pydict \<Rightarrow> string \<Rightarrow> exn + pyval" where
  \<comment> \<open>\<open>d[k]\<close>\<close>
  "dict_item d k = (case map_of d k of Some v \<Rightarrow> Inr v | None \<Rightarrow> Inl (Exn ''KeyError'' (lit k)))"

definition list_item :: "'a list \<Rightarrow> int \<Rightarrow> exn + 'a" where
  \<comment> \<open>\<open>xs[i]\<close>: a negative index counts from the end\<close>
  "list_item xs i =
     (if - int (length xs) \<le> i \<and> i < 0 then Inr (xs ! nat (i + int (length xs)))
      else if 0 \<le> i \<and> i < int (length xs) then Inr (xs ! nat i)
      else Inl (Exn ''IndexError'' (lit ''list index out of range'')))"

function digits :: "nat \<Rightarrow> pystr" where
  "digits n = (if n < 10 then [48 + n] else digits (n div 10) @ [48 + n mod 10])"
  by pat_completeness auto
termination
  by (relation "measure id") auto

declare digits.simps [simp del]

text \<open>
  \<open>str(v)\<close>. On integers and strings it is defined here; what the runtime prints for the
  other values (floats, lists, dictionaries, \<open>None\<close>) is the parameter \<open>other\<close>.
\<close>

definition py_str :: "(pyval \<Rightarrow> pystr) \<Rightarrow> pyval \<Rightarrow> pystr" where
  "py_str other v =
     (case v of
        PStr s \<Rightarrow> s
      | PInt i \<Rightarrow> (if i < 0 then 45 # digits (nat (- i)) else digits (nat i))
      | _ \<Rightarrow> other v)"

section \<open>vector\_db.py: the vector database\<close>

text \<open>
  The remote services and the runtime are the environment of the model: the two
  character classes, the embedding endpoint, the chat endpoint and \<open>str\<close> on the values
  not covered above. An endpoint is a function of its input; it answers or raises.
\<close>

datatype embedding_response = Flat "real list" | Nested "real list list"

datatype completion =
    ChoicesObject "pystr list" pystr
  | ChoicesDict "pystr list option"
  | OtherResponse pystr

record env =
  chars :: ucd
  feature_extraction :: "pyval \<Rightarrow> exn + embedding_response"
  chat_completion :: "pystr \<Rightarrow> int \<Rightarrow> exn + completion"
  str_other :: "pyval \<Rightarrow> pystr"

text \<open>
  The FAISS index \<open>IndexFlatL2\<close> is not code of this repository. Its state is the
  dimension and the vectors in insertion order, \<open>ntotal\<close> being their number. \<open>add\<close>
  takes the two-dimensional array that numpy builds: it needs a shape \<open>(n, d)\<close> and the
  dimension of the index, and appends the rows.
\<close>

record faiss_index =
  dimension :: nat
  vectors :: "real list list"

definition ntotal :: "faiss_index \<Rightarrow> nat" where
  "ntotal ix = length (vectors ix)"

definition IndexFlatL2 :: "nat \<Rightarrow> faiss_index" where
  "IndexFlatL2 n = \<lparr> dimension = n, vectors = [] \<rparr>"

definition np_array :: "real list list \<Rightarrow> exn + real list list" where
  \<comment> \<open>\<open>np.array(rows, dtype='float32')\<close>: the rows must have one length\<close>
  "np_array rows =
     (if list_all (\<lambda>r. length r = length (hd rows)) rows then Inr rows
      else Inl (Exn ''ValueError'' (lit ''inhomogeneous shape'')))"

definition index_add :: "faiss_index \<Rightarrow> real list list \<Rightarrow> exn + faiss_index" where
  "index_add ix rows =
     (if rows = [] then Inl (Exn ''ValueError'' (lit ''not enough values to unpack''))
      else if length (hd rows) \<noteq> dimension ix then Inl (Exn ''AssertionError'' [])
      else Inr (ix \<lparr> vectors := vectors ix @ rows \<rparr>))"

definition l2sqr :: "real list \<Rightarrow> real list \<Rightarrow> real" where
  \<comment> \<open>squared Euclidean distance\<close>
  "l2sqr x y = (\<Sum>(a, b) \<leftarrow> zip x y. (a - b)\<^sup>2)"

text \<open>
  Modelled from the spec: \<open>IndexFlatL2.search\<close> of FAISS, which is not under src/. The
  spec's words are: exact nearest-neighbor search by squared Euclidean distance,
  returning the k closest, ordered by ascending distance, the tie-break on equal distance
  being index-insertion order. So every stored vector is ranked by the pair of its
  distance and its position, in lexicographic order, and the first \<open>k\<close> are returned as
  distances and labels. The query must have the dimension of the index.
\<close>

definition index_search :: "faiss_index \<Rightarrow> real list \<Rightarrow> int \<Rightarrow> exn + (real list \<times> int list)" where
  "index_search ix q k =
     (if length q \<noteq> dimension ix then Inl (Exn ''AssertionError'' [])
      else
        (let ranked = sort (zip (map (l2sqr q) (vectors ix)) [0..<ntotal ix]);
             top = take (nat k) ranked
         in Inr (map fst top, map (int \<circ> snd) top)))"

text \<open>
  The three files under \<open>persist_directory\<close>. A file is absent, or cannot be
  deserialized, or holds a value. The store itself is reliable: writing and removing
  succeed, so the handlers of \<open>_save\<close> and \<open>delete_collection\<close>, which only report an
  error of the file system, are never entered.
\<close>

datatype 'a stored_file = Absent | Corrupt | Stored 'a

record disk =
  index_file :: "faiss_index stored_file"
  docs_file :: "pyval list stored_file"
  meta_file :: "pydict list stored_file"

definition read_file :: "'a stored_file \<Rightarrow> exn + 'a" where
  "read_file f =
     (case f of
        Absent \<Rightarrow> Inl (Exn ''FileNotFoundError'' [])
      | Corrupt \<Rightarrow> Inl (Exn ''Exception'' (lit ''cannot deserialize''))
      | Stored x \<Rightarrow> Inr x)"

record vector_db =
  index :: "faiss_index option"
  documents :: "pyval list"
  metadatas :: "pydict list"
  collection_name :: "pystr option"
  files :: disk

definition embedding_dim :: nat where
  "embedding_dim = 384"

definition init_db :: "disk \<Rightarrow> vector_db" where
  \<comment> \<open>\<open>__init__\<close> with an API key, over the directory as it is found\<close>
  "init_db dk = \<lparr> index = None, documents = [], metadatas = [], collection_name = None,
                  files = dk \<rparr>"

definition get_embedding :: "env \<Rightarrow> pyval \<Rightarrow> exn + real list" where
  "get_embedding ev txt =
     (case feature_extraction ev txt of
        Inl e \<Rightarrow> Inl (Exn ''Exception'' (lit ''Error getting embedding: '' @ msg e))
      | Inr (Nested (row # rows)) \<Rightarrow> Inr row
      | Inr (Nested []) \<Rightarrow> Inr []
      | Inr (Flat v) \<Rightarrow> Inr v)"

definition get_batch_embeddings :: "env \<Rightarrow> pyval list \<Rightarrow> exn + real list list" where
  "get_batch_embeddings ev texts =
     (case try_map (get_embedding ev) texts of
        Inl e \<Rightarrow> Inl e
      | Inr embeddings \<Rightarrow> np_array embeddings)"

definition load_collection :: "disk \<Rightarrow> exn + (faiss_index \<times> pyval list \<times> pydict list)" where
  \<comment> \<open>the body of the \<open>try\<close> in \<open>create_collection\<close>\<close>
  "load_collection dk =
     (case read_file (index_file dk) of
        Inl e \<Rightarrow> Inl e
      | Inr ix \<Rightarrow>
          (case read_file (docs_file dk) of
             Inl e \<Rightarrow> Inl e
           | Inr docs \<Rightarrow>
               (case read_file (meta_file dk) of
                  Inl e \<Rightarrow> Inl e
                | Inr metas \<Rightarrow> Inr (ix, docs, metas))))"

definition new_collection :: "vector_db \<Rightarrow> vector_db" where
  "new_collection st = st \<lparr> index := Some (IndexFlatL2 embedding_dim), documents := [], metadatas := [] \<rparr>"

definition create_collection :: "vector_db \<Rightarrow> pystr \<Rightarrow> vector_db" where
  "create_collection st name =
     (let st1 = st \<lparr> collection_name := Some name \<rparr>
      in if index_file (files st1) \<noteq> Absent then
           (case load_collection (files st1) of
              Inr (ix, docs, metas) \<Rightarrow> st1 \<lparr> index := Some ix, documents := docs, metadatas := metas \<rparr>
            | Inl e \<Rightarrow> new_collection st1)
         else new_collection st1)"

definition save :: "vector_db \<Rightarrow> vector_db" where
  \<comment> \<open>\<open>_save\<close>; without an index \<open>write_index\<close> raises before anything is written\<close>
  "save st =
     (case index st of
        None \<Rightarrow> st
      | Some ix \<Rightarrow>
          st \<lparr> files := \<lparr> index_file = Stored ix, docs_file = Stored (documents st),
                          meta_file = Stored (metadatas st) \<rparr> \<rparr>)"

definition chunk_metadata :: "env \<Rightarrow> pydict \<Rightarrow> pydict" where
  \<comment> \<open>the record that \<open>add_documents\<close> stores for one chunk\<close>
  "chunk_metadata ev chunk =
     [(''source'', dict_get chunk ''source'' (PStr (lit ''unknown''))),
      (''chunk_id'', PStr (py_str (str_other ev) (dict_get chunk ''chunk_id'' (PInt 0)))),
      (''title'', dict_get chunk ''title'' (PStr (lit ''Unknown'')))]"

text \<open>
  \<open>add_documents\<close> returns the state it leaves and the exception it raised, if any. An
  exception leaves the state as it was when it was raised.
\<close>

definition add_documents :: "env \<Rightarrow> vector_db \<Rightarrow> pydict list \<Rightarrow> pystr \<Rightarrow> exn option \<times> vector_db" where
  "add_documents ev st chunks name =
     (let st1 = (if index st = None then create_collection st name else st)
      in case try_map (\<lambda>chunk. dict_item chunk ''text'') chunks of
           Inl e \<Rightarrow> (Some e, st1)
         | Inr texts \<Rightarrow>
             (case get_batch_embeddings ev texts of
                Inl e \<Rightarrow> (Some e, st1)
              | Inr embeddings \<Rightarrow>
                  (case index st1 of
                     None \<Rightarrow> (Some (Exn ''AttributeError'' []), st1)
                   | Some ix \<Rightarrow>
                       (case index_add ix embeddings of
                          Inl e \<Rightarrow> (Some e, st1)
                        | Inr ix' \<Rightarrow>
                            (None,
                             save (st1 \<lparr> index := Some ix',
                                         documents := documents st1 @ texts,
                                         metadatas := metadatas st1 @ map (chunk_metadata ev) chunks \<rparr>))))))"

record query_result =
  result_documents :: "pyval list"
  result_metadatas :: "pydict list"
  result_distances :: "real list"

definition query :: "env \<Rightarrow> vector_db \<Rightarrow> pystr \<Rightarrow> int \<Rightarrow> exn + query_result" where
  "query ev st query_text n_results =
     (case index st of
        None \<Rightarrow> Inr \<lparr> result_documents = [], result_metadatas = [], result_distances = [] \<rparr>
      | Some ix \<Rightarrow>
          if length (documents st) = 0
          then Inr \<lparr> result_documents = [], result_metadatas = [], result_distances = [] \<rparr>
          else
            (case get_embedding ev (PStr query_text) of
               Inl e \<Rightarrow> Inl e
             | Inr query_embedding \<Rightarrow>
                 (case index_search ix query_embedding (min n_results (int (length (documents st)))) of
                    Inl e \<Rightarrow> Inl e
                  | Inr (distances, indices) \<Rightarrow>
                      (case try_map (list_item (documents st)) indices of
                         Inl e \<Rightarrow> Inl e
                       | Inr results_docs \<Rightarrow>
                           (case try_map (list_item (metadatas st)) indices of
                              Inl e \<Rightarrow> Inl e
                            | Inr results_meta \<Rightarrow>
                                Inr \<lparr> result_documents = results_docs,
                                      result_metadatas = results_meta,
                                      result_distances = distances \<rparr>)))))"

definition delete_collection :: "vector_db \<Rightarrow> pystr \<Rightarrow> vector_db" where
  "delete_collection st name =
     st \<lparr> files := \<lparr> index_file = Absent, docs_file = Absent, meta_file = Absent \<rparr>,
          index := None, documents := [], metadatas := [], collection_name := None \<rparr>"


definition reset_database :: "vector_db \<Rightarrow> vector_db" where
  "reset_database st = delete_collection st (lit ''documents'')"

section \<open>chat\_bot.py: retrieval and answer\<close>

definition generate_response :: "env \<Rightarrow> pystr \<Rightarrow> int \<Rightarrow> exn + pystr" where
  \<comment> \<open>every exception of the body is raised again as \<open>Exception("Error generating response: ...")\<close>\<close>
  "generate_response ev prompt max_length =
     (case chat_completion ev prompt max_length of
        Inl e \<Rightarrow> Inl (Exn ''Exception'' (lit ''Error generating response: '' @ msg e))
      | Inr (ChoicesObject (c # cs) s) \<Rightarrow> Inr (strip (isspace (chars ev)) c)
      | Inr (ChoicesObject [] s) \<Rightarrow> Inr (strip (isspace (chars ev)) s)
      | Inr (ChoicesDict None) \<Rightarrow> Inr (strip (isspace (chars ev)) [])
      | Inr (ChoicesDict (Some (c # cs))) \<Rightarrow> Inr (strip (isspace (chars ev)) c)
      | Inr (ChoicesDict (Some [])) \<Rightarrow>
          Inl (Exn ''Exception'' (lit ''Error generating response: list index out of range''))
      | Inr (OtherResponse s) \<Rightarrow> Inr (strip (isspace (chars ev)) s))"

fun join :: "pystr \<Rightarrow> pystr list \<Rightarrow> pystr" where
  \<comment> \<open>\<open>sep.join(parts)\<close>\<close>
  "join sep [] = []"
| "join sep [x] = x"
| "join sep (x # y # ys) = x @ sep @ join sep (y # ys)"

definition create_rag_prompt :: "env \<Rightarrow> pystr \<Rightarrow> pyval list \<Rightarrow> pystr" where
  "create_rag_prompt ev question context_docs =
     (let context = join [10, 10]
            (map (\<lambda>(i, doc). lit ''Document '' @ py_str (str_other ev) (PInt (int i + 1)) @ lit '':''
                                @ [10] @ py_str (str_other ev) doc)
                 (zip [0..<length context_docs] context_docs))
      in lit ''You are a helpful AI assistant. Answer the question based ONLY on the provided context. If the answer cannot be found in the context, say ''
         @ [34] @ lit ''I don'' @ [39]
         @ lit ''t have enough information to answer this question based on the provided documents.''
         @ [34, 10, 10] @ lit ''Context:'' @ [10] @ context @ [10, 10]
         @ lit ''Question: '' @ question @ [10, 10]
         @ lit ''Provide a clear, concise answer based on the context above.'')"

definition py_len :: "pyval \<Rightarrow> exn + nat" where
  "py_len v =
     (case v of
        PStr s \<Rightarrow> Inr (length s)
      | PList xs \<Rightarrow> Inr (length xs)
      | PDict kvs \<Rightarrow> Inr (length kvs)
      | _ \<Rightarrow> Inl (Exn ''TypeError'' (lit ''object has no len()'')))"

definition text_preview :: "pyval \<Rightarrow> exn + pyval" where
  \<comment> \<open>\<open>doc[:200] + "..." if len(doc) > 200 else doc\<close>\<close>
  "text_preview doc =
     (case py_len doc of
        Inl e \<Rightarrow> Inl e
      | Inr n \<Rightarrow>
          if n > 200 then
            (case doc of
               PStr s \<Rightarrow> Inr (PStr (take 200 s @ lit ''...''))
             | _ \<Rightarrow> Inl (Exn ''TypeError'' (lit ''unsupported operand'')))
          else Inr doc)"

definition source_entry :: "real list \<Rightarrow> nat \<times> pyval \<times> pydict \<Rightarrow> exn + pyval" where
  \<comment> \<open>one pass of the loop that prepares the sources\<close>
  "source_entry distances = (\<lambda>(i, doc, metadata).
     (case text_preview doc of
        Inl e \<Rightarrow> Inl e
      | Inr preview \<Rightarrow>
          (case list_item distances (int i) of
             Inl e \<Rightarrow> Inl e
           | Inr distance \<Rightarrow>
               Inr (PDict [(''chunk_id'', dict_get metadata ''chunk_id'' (PInt (int i))),
                           (''source'', dict_get metadata ''source'' (PStr (lit ''Unknown''))),
                           (''title'', dict_get metadata ''title'' (PStr (lit ''Unknown''))),
                           (''text_preview'', preview),
                           (''relevance_score'', PFloat (1 - distance))]))))"

definition no_documents_answer :: pydict where
  "no_documents_answer =
     [(''answer'', PStr (lit ''No documents found in the database. Please upload a PDF first.'')),
      (''sources'', PList [])]"

definition error_answer :: "exn \<Rightarrow> pydict" where
  "error_answer e =
     [(''answer'', PStr (lit ''Error generating answer: '' @ msg e)),
      (''sources'', PList []),
      (''error'', PStr (msg e))]"

definition answer_body :: "env \<Rightarrow> vector_db \<Rightarrow> pystr \<Rightarrow> int \<Rightarrow> exn + pydict" where
  \<comment> \<open>the body of the \<open>try\<close> in \<open>answer_question\<close>\<close>
  "answer_body ev st question n_context_docs =
     (case query ev st question n_context_docs of
        Inl e \<Rightarrow> Inl e
      | Inr search_results \<Rightarrow>
          if result_documents search_results = [] then Inr no_documents_answer
          else
            (let context_docs = result_documents search_results;
                 prompt = create_rag_prompt ev question context_docs
             in case generate_response ev prompt 500 of
                  Inl e \<Rightarrow> Inl e
                | Inr answer \<Rightarrow>
                    (case try_map (source_entry (result_distances search_results))
                            (zip [0..<length (result_documents search_results)]
                                 (zip (result_documents search_results)
                                      (result_metadatas search_results))) of
                       Inl e \<Rightarrow> Inl e
                     | Inr sources \<Rightarrow>
                         Inr [(''answer'', PStr answer),
                              (''sources'', PList sources),
                              (''context_used'', PInt (int (length context_docs)))])))"

definition answer_question :: "env \<Rightarrow> vector_db \<Rightarrow> pystr \<Rightarrow> int \<Rightarrow> exn + pydict" where
  \<comment> \<open>\<open>try: ... except Exception as e: return {...}\<close>\<close>
  "answer_question ev st question n_context_docs =
     (case answer_body ev st question n_context_docs of
        Inr r \<Rightarrow> Inr r
      | Inl e \<Rightarrow> Inr (error_answer e))"

section \<open>Notions used to state the properties of the database\<close>

text \<open>
  The calls of the interface, and the state after a sequence of them from a state. A
  call that raises leaves the state in which it raised.
\<close>

datatype call =
    CreateCollection pystr
  | AddDocuments "pydict list" pystr
  | Query pystr int
  | DeleteCollection pystr
  | ResetDatabase

fun perform :: "env \<Rightarrow> vector_db \<Rightarrow> call \<Rightarrow> vector_db" where
  "perform ev st (CreateCollection name) = create_collection st name"
| "perform ev st (AddDocuments chunks name) = snd (add_documents ev st chunks name)"
| "perform ev st (Query query_text n_results) = st"
| "perform ev st (DeleteCollection name) = delete_collection st name"
| "perform ev st ResetDatabase = reset_database st"

definition run :: "env \<Rightarrow> vector_db \<Rightarrow> call list \<Rightarrow> vector_db" where
  "run ev st calls = foldl (perform ev) st calls"







section \<open>Examples\<close>

text \<open>
  An environment for the examples: the embedding of a string has its length as first
  component and 383 zeros after it, the chat endpoint answers with one choice, and the
  character classes are those of ASCII.
\<close>

definition example_env :: env where
  "example_env =
     \<lparr> chars = ascii_ucd,
       feature_extraction = (\<lambda>v. case v of PStr s \<Rightarrow> Inr (Flat (real (length s) # replicate 383 0))
                                  | _ \<Rightarrow> Inl (Exn ''ValueError'' (lit ''not a string''))),
       chat_completion = (\<lambda>prompt max_tokens. Inr (ChoicesObject [lit '' An answer. ''] [])),
       str_other = (\<lambda>v. lit ''?'') \<rparr>"

text \<open>
  A directory without artifacts.
\<close>

definition empty_disk :: disk where
  "empty_disk = \<lparr> index_file = Absent, docs_file = Absent, meta_file = Absent \<rparr>"

text \<open>
  Three chunks, the first as \<open>process_pdf\<close> builds them, and the database after they
  are added to an empty directory: its index, its metadata records.
\<close>

definition example_chunks :: "pydict list" where
  "example_chunks =
     [[(''text'', PStr (lit ''bbb'')), (''start_pos'', PInt 0), (''end_pos'', PInt 3),
       (''chunk_id'', PInt 0), (''source'', PStr (lit ''a.pdf'')), (''num_pages'', PInt 1),
       (''title'', PStr (lit ''A''))],
      [(''text'', PStr (lit ''a'')), (''chunk_id'', PInt 1)],
      [(''text'', PStr (lit ''ccc'')), (''chunk_id'', PInt 12)]]"

definition example_db :: vector_db where
  "example_db = run example_env (init_db empty_disk) [AddDocuments example_chunks (lit ''documents'')]"

definition example_index :: faiss_index where
  "example_index = \<lparr> dimension = 384,
      vectors = [3 # replicate 383 0, 1 # replicate 383 0, 3 # replicate 383 0] \<rparr>"

definition example_metadatas :: "pydict list" where
  "example_metadatas =
     [[(''source'', PStr (lit ''a.pdf'')), (''chunk_id'', PStr (lit ''0'')), (''title'', PStr (lit ''A''))],
      [(''source'', PStr (lit ''unknown'')), (''chunk_id'', PStr (lit ''1'')), (''title'', PStr (lit ''Unknown''))],
      [(''source'', PStr (lit ''unknown'')), (''chunk_id'', PStr (lit ''12'')), (''title'', PStr (lit ''Unknown''))]]"




text \<open>
  Environments whose embedding endpoint, or chat endpoint, fails.
\<close>

definition failing_embedding_env :: env where
  "failing_embedding_env =
     example_env \<lparr> feature_extraction := (\<lambda>v. Inl (Exn ''TimeoutError'' (lit ''timed out''))) \<rparr>"

definition failing_chat_env :: env where
  "failing_chat_env =
     example_env \<lparr> chat_completion := (\<lambda>prompt max_tokens. Inl (Exn ''HTTPError'' (lit ''503''))) \<rparr>"

text \<open>
  The keys of a source in the response of \<open>answer_question\<close>.
\<close>

definition source_keys :: "string list" where
  "source_keys = [''chunk_id'', ''source'', ''title'', ''text_preview'', ''relevance_score'']"

text \<open>
  The response to the question \<open>ddd\<close> with two context documents on the example
  database.
\<close>

definition example_sources :: "pyval list" where
  "example_sources =
     [PDict [(''chunk_id'', PStr (lit ''0'')), (''source'', PStr (lit ''a.pdf'')),
             (''title'', PStr (lit ''A'')), (''text_preview'', PStr (lit ''bbb'')),
             (''relevance_score'', PFloat 1)],
      PDict [(''chunk_id'', PStr (lit ''12'')), (''source'', PStr (lit ''unknown'')),
             (''title'', PStr (lit ''Unknown'')), (''text_preview'', PStr (lit ''ccc'')),
             (''relevance_score'', PFloat 1)]]"

definition example_answer :: pydict where
  "example_answer =
     [(''answer'', PStr (lit ''An answer.'')),
      (''sources'', PList example_sources),
      (''context_used'', PInt 2)]"

section \<open>Properties of the chunker\<close>

lemma slice_nonneg:
  assumes "0 \<le> i" "0 \<le> j"
  shows "slice xs i j = take (nat j - nat i) (drop (nat i) xs)"
proof (cases "nat i \<ge> length xs")
  case True
  with assms show ?thesis by (simp add: slice_def clamp_index_def Let_def)
next
  case False
  with assms show ?thesis
    by (cases "nat j \<le> length xs") (simp_all add: slice_def clamp_index_def Let_def min_def)
qed

lemma slice_all: "int (length xs) \<le> j \<Longrightarrow> slice xs 0 j = xs"
  by (simp add: slice_def clamp_index_def Let_def)

lemma length_slice_le: "0 \<le> i \<Longrightarrow> i \<le> j \<Longrightarrow> int (length (slice xs i j)) \<le> j - i"
  by (auto simp add: slice_def clamp_index_def Let_def)

lemma rfind_from_bounds:
  "- 1 \<le> found \<Longrightarrow> found < i \<Longrightarrow> - 1 \<le> rfind_from c i found s \<and> rfind_from c i found s < i + int (length s)"
proof (induction s arbitrary: i found)
  case Nil
  then show ?case by simp
next
  case (Cons x xs)
  have "- 1 \<le> (if x = c then i else found)" "(if x = c then i else found) < i + 1"
    using Cons.prems by auto
  from Cons.IH[OF this] show ?case by simp
qed

lemma rfind_bounds: "- 1 \<le> rfind s c \<and> rfind s c < int (length s)"
  using rfind_from_bounds[of "- 1" 0 c s] by (simp add: rfind_def)

lemma sentence_end_bounds: "- 1 \<le> sentence_end s \<and> sentence_end s < int (length s)"
  using rfind_bounds[of s 46] rfind_bounds[of s 63] rfind_bounds[of s 33]
  unfolding sentence_end_def max_def by auto

lemma last_dropWhile: "dropWhile P xs \<noteq> [] \<Longrightarrow> last (dropWhile P xs) = last xs"
  by (induction xs) (auto split: if_splits)

lemma dropWhile_id: "xs = [] \<or> \<not> P (hd xs) \<Longrightarrow> dropWhile P xs = xs"
  by (cases xs) auto

lemma strip_id: "s = [] \<or> (\<not> sp (hd s) \<and> \<not> sp (last s)) \<Longrightarrow> strip sp s = s"
  by (cases "s = []") (auto simp: strip_def dropWhile_id hd_rev)

lemma strip_ends: "strip sp s = [] \<or> (\<not> sp (hd (strip sp s)) \<and> \<not> sp (last (strip sp s)))"
proof (cases "strip sp s = []")
  case True
  then show ?thesis by simp
next
  case False
  let ?t = "dropWhile sp s"
  let ?r = "dropWhile sp (rev ?t)"
  have r: "?r \<noteq> []" using False by (simp add: strip_def)
  have t: "?t \<noteq> []"
  proof
    assume "?t = []"
    then have "?r = []" by (simp only: rev.simps dropWhile.simps)
    with r show False by simp
  qed
  have "last ?r = last (rev ?t)" using r by (rule last_dropWhile)
  also have "\<dots> = hd ?t" using t by (simp add: last_rev)
  finally have "\<not> sp (last ?r)" using t hd_dropWhile[of sp s] by simp
  moreover have "\<not> sp (hd ?r)" using r hd_dropWhile[of sp "rev ?t"] by simp
  ultimately show ?thesis using r by (simp add: strip_def hd_rev last_rev)
qed

lemma strip_idem: "strip sp (strip sp s) = strip sp s"
  using strip_ends[of sp s] by (intro strip_id) 

lemma strip_clean_text: "strip (isspace u) (clean_text u text) = clean_text u text"
  by (simp add: clean_text_def strip_idem)

lemma window_end:
  assumes "0 \<le> start" "start < int (length text)" "0 < cs"
  shows "snd (window cs text start) =
           (if truncates cs text start
            then start + sentence_end (slice text start (start + cs)) + 1 else start + cs)"
  by (simp add: window_def truncates_def Let_def)

lemma window_truncated_bounds:
  assumes "0 \<le> start" "0 \<le> cs" "truncates cs text start"
  shows "start + cs div 2 + 2 \<le> snd (window cs text start)"
    and "snd (window cs text start) \<le> start + cs"
    and "snd (window cs text start) < int (length text)"
proof -
  let ?chunk = "slice text start (start + cs)"
  have e: "snd (window cs text start) = start + sentence_end ?chunk + 1"
    using assms by (simp add: window_def truncates_def Let_def)
  have se: "cs div 2 < sentence_end ?chunk" using assms by (simp add: truncates_def)
  have "int (length ?chunk) \<le> cs"
    using length_slice_le[of start "start + cs" "text"] assms by simp
  with sentence_end_bounds[of ?chunk] have lt: "sentence_end ?chunk < cs" by simp
  show "start + cs div 2 + 2 \<le> snd (window cs text start)" using e se by simp
  show "snd (window cs text start) \<le> start + cs" using e lt by simp
  show "snd (window cs text start) < int (length text)"
    using e lt assms by (simp add: truncates_def)
qed

lemma window_plain: "\<not> truncates cs text start \<Longrightarrow> snd (window cs text start) = start + cs"
  by (auto simp add: window_def truncates_def Let_def)

lemma window_advance:
  assumes "0 \<le> start" "0 \<le> cs" "ov < cs" "ov < cs div 2 + 2"
  shows "start < snd (window cs text start) - ov"
proof (cases "truncates cs text start")
  case True
  from window_truncated_bounds(1)[OF assms(1,2) True] assms show ?thesis by simp
next
  case False
  then show ?thesis using assms by (simp add: window_plain)
qed

lemma chunk_loop_chained:
  assumes "0 \<le> cs" "ov < cs" "ov < cs div 2 + 2"
  shows "0 \<le> start \<Longrightarrow>
         \<exists>news. chunk_loop u cs ov m text start chunks = Some (chunks @ news) \<and>
                chained u cs ov m text start (length chunks) news"
proof (induction "nat (int (length text) - start)" arbitrary: start chunks rule: less_induct)
  case less
  show ?case
  proof (cases "start < int (length text)")
    case False
    then have "chunk_loop u cs ov m text start chunks = Some (chunks @ [])"
      by (subst chunk_loop.simps) simp
    moreover have "chained u cs ov m text start (length chunks) []" using False by simp
    ultimately show ?thesis by blast
  next
    case True
    let ?e = "snd (window cs text start)"
    let ?d = "chunk_data u m (fst (window cs text start)) start ?e (length chunks)"
    have adv: "start < ?e - ov" using window_advance[OF less.prems assms] .
    then have "nat (int (length text) - (?e - ov)) < nat (int (length text) - start)"
      using True by simp
    moreover have "0 \<le> ?e - ov" using adv less.prems by simp
    ultimately obtain news where
      n1: "chunk_loop u cs ov m text (?e - ov) (chunks @ [?d]) = Some ((chunks @ [?d]) @ news)"
      and n2: "chained u cs ov m text (?e - ov) (length (chunks @ [?d])) news"
      using less.hyps[of "?e - ov" "chunks @ [?d]"] by blast
    have "chunk_loop u cs ov m text start chunks = Some (chunks @ (?d # news))"
      using True n1 by (subst chunk_loop.simps) (simp add: case_prod_beta)
    moreover have "chained u cs ov m text start (length chunks) (?d # news)"
      using True n2 by simp
    ultimately show ?thesis by blast
  qed
qed

lemma map_of_dict_update_other:
  "k \<notin> set (keys m) \<Longrightarrow> map_of (dict_update d m) k = map_of d k"
proof (induction m arbitrary: d)
  case Nil
  then show ?case by (simp add: dict_update_def)
next
  case (Cons p m)
  obtain k' v where p: "p = (k', v)" by (cases p)
  have "dict_update d (p # m) = dict_update (AList.update k' v d) m"
    by (simp add: dict_update_def p)
  moreover have "k \<notin> set (keys m)" "k \<noteq> k'" using Cons.prems by (auto simp: keys_def p)
  ultimately show ?case using Cons.IH[of "AList.update k' v d"] by (simp add: update_conv')
qed

lemma map_of_chunk_data:
  assumes "k \<notin> set (keys m)"
  shows "map_of (chunk_data u m c s e n) k =
           map_of [(''text'', PStr (strip (isspace u) c)), (''start_pos'', PInt s),
                   (''end_pos'', PInt e), (''chunk_id'', PInt (int n))] k"
  using assms by (simp add: chunk_data_def Let_def map_of_dict_update_other del: map_of.simps)






lemma chunk_text_chained:
  assumes "0 \<le> ov" "ov < cs" "ov < cs div 2 + 2"
  shows "\<exists>chunks. chunk_text u cs ov txt m = Some chunks \<and>
           chained u cs ov m (clean_text u txt) 0 0 chunks"
proof -
  have "0 \<le> cs" using assms by simp
  from chunk_loop_chained[OF this assms(2,3), of 0 u m "clean_text u txt" "[]"]
  show ?thesis by (simp add: chunk_text_def)
qed

text \<open>
  C8. With the default parameters \<open>chunk_size = 1000\<close> and \<open>chunk_overlap = 200\<close> the
  loop of \<open>chunk_text\<close> ends for every input text and every metadata: \<open>chunk_text\<close>
  returns a list of chunks. Every iteration, that is every window start inside the cleaned
  text, moves the start strictly forward: by exactly \<open>chunk_size - chunk_overlap = 800\<close>
  when no sentence-boundary truncation applies, and by more than
  \<open>chunk_size div 2 - chunk_overlap = 300\<close> when one does.
\<close>

theorem chunking_terminates_default:
  "(\<exists>chunks. chunk_text u 1000 200 txt m = Some chunks) \<and>
   (\<forall>start. 0 \<le> start \<and> start < int (length (clean_text u txt)) \<longrightarrow>
      start < snd (window 1000 (clean_text u txt) start) - 200 \<and>
      (if truncates 1000 (clean_text u txt) start
       then snd (window 1000 (clean_text u txt) start) - 200 - start > 1000 div 2 - 200
       else snd (window 1000 (clean_text u txt) start) - 200 - start = 1000 - 200))"
proof (intro conjI allI impI)
  show "\<exists>chunks. chunk_text u 1000 200 txt m = Some chunks"
    using chunk_text_chained[of 200 1000 u "txt" m] by auto
next
  fix start :: int
  assume a: "0 \<le> start \<and> start < int (length (clean_text u txt))"
  then show "start < snd (window 1000 (clean_text u txt) start) - 200"
    using window_advance[of start 1000 200 "clean_text u txt"] by simp
  show "if truncates 1000 (clean_text u txt) start
       then snd (window 1000 (clean_text u txt) start) - 200 - start > 1000 div 2 - 200
       else snd (window 1000 (clean_text u txt) start) - 200 - start = 1000 - 200"
  proof (cases "truncates 1000 (clean_text u txt) start")
    case True
    from window_truncated_bounds(1)[OF _ _ True] a True show ?thesis by simp
  next
    case False
    then show ?thesis by (simp add: window_plain)
  qed
qed

text \<open>
  C1, as amended. For every input text whose cleaned form is not empty and has length at
  most \<open>chunk_size - chunk_overlap\<close> (800 with the defaults), \<open>chunk_text\<close> returns
  exactly one chunk, and that chunk's text equals the cleaned input. Here
  \<open>chunk_overlap\<close> is not negative and the caller's metadata has no key \<open>text\<close>, which
  \<open>update\<close> would store over the chunk's own.
\<close>

theorem chunk_text_single:
  assumes "0 \<le> ov" and "clean_text u txt \<noteq> []"
    and "int (length (clean_text u txt)) \<le> cs - ov"
    and "''text'' \<notin> set (keys m)"
  shows "\<exists>d. chunk_text u cs ov txt m = Some [d] \<and>
             map_of d ''text'' = Some (PStr (clean_text u txt))"
proof -
  let ?T = "clean_text u txt"
  let ?d = "chunk_data u m ?T 0 cs 0"
  have len: "int (length ?T) \<le> cs" using assms by simp
  have pos: "0 < int (length ?T)" using assms(2) by simp
  have w: "window cs ?T 0 = (?T, cs)"
    using len by (simp add: window_def Let_def slice_all)
  have "chunk_loop u cs ov m ?T (cs - ov) [?d] = Some [?d]"
    using assms(3) by (subst chunk_loop.simps) simp
  then have "chunk_loop u cs ov m ?T 0 [] = Some [?d]"
    using pos w by (subst chunk_loop.simps) simp
  moreover have "map_of ?d ''text'' = Some (PStr ?T)"
    by (simp add: map_of_chunk_data[OF assms(4)] strip_clean_text)
  ultimately show ?thesis by (auto simp: chunk_text_def)
qed


lemma sub_whitespace_id: "\<forall>c \<in> set s. \<not> sp c \<Longrightarrow> sub_whitespace sp s = s"
  by (induction s) simp_all

lemma clean_text_id:
  assumes "\<forall>c \<in> set s. \<not> isspace u c \<and> allowed u c"
  shows "clean_text u s = s"
proof -
  have "sub_whitespace (isspace u) s = s" using assms by (simp add: sub_whitespace_id)
  moreover have "filter (allowed u) s = s" using assms by (simp add: filter_id_conv)
  moreover have "strip (isspace u) s = s"
  proof (cases "s = []")
    case True
    then show ?thesis by (simp add: strip_def)
  next
    case False
    then have "hd s \<in> set s" "last s \<in> set s" by simp_all
    with assms show ?thesis by (intro strip_id) blast
  qed
  ultimately show ?thesis by (simp add: clean_text_def)
qed

lemma ascii_letter: "\<not> isspace ascii_ucd 97 \<and> allowed ascii_ucd 97"
  by (simp add: ascii_ucd_def allowed_def)

lemma ascii_period: "\<not> isspace ascii_ucd 46 \<and> allowed ascii_ucd 46"
  by (simp add: ascii_ucd_def allowed_def lit_def)

lemma clean_text_letters: "clean_text ascii_ucd (replicate n 97) = replicate n 97"
  using ascii_letter by (intro clean_text_id) simp

lemma rfind_from_append:
  "rfind_from c i found (xs @ ys) = rfind_from c (i + int (length xs)) (rfind_from c i found xs) ys"
  by (induction xs arbitrary: i found) (simp_all add: add.assoc)

lemma rfind_from_replicate: "x \<noteq> c \<Longrightarrow> rfind_from c i found (replicate n x) = found"
  by (induction n arbitrary: i) simp_all

lemma rfind_replicate: "x \<noteq> c \<Longrightarrow> rfind (replicate n x) c = - 1"
  by (simp add: rfind_def rfind_from_replicate)

lemma sentence_end_letters: "sentence_end (replicate n 97) = - 1"
  by (simp add: sentence_end_def rfind_replicate)

lemma strip_letters: "strip (isspace ascii_ucd) (replicate n 97) = replicate n 97"
  using ascii_letter by (cases n) (simp_all add: strip_id)

lemma tail_chunk_example:
  "chunk_text ascii_ucd 1000 200 (replicate 900 97) [] =
     Some [[(''text'', PStr (replicate 900 97)), (''start_pos'', PInt 0),
            (''end_pos'', PInt 1000), (''chunk_id'', PInt 0)],
           [(''text'', PStr (replicate 100 97)), (''start_pos'', PInt 800),
            (''end_pos'', PInt 1800), (''chunk_id'', PInt 1)]]"
proof -
  let ?T = "replicate 900 97 :: pystr"
  have w0: "window 1000 ?T 0 = (?T, 1000)"
    by (simp add: window_def Let_def slice_all)
  have w1: "window 1000 ?T 800 = (replicate 100 97, 1800)"
    by (simp add: window_def Let_def slice_nonneg)
  show ?thesis
    unfolding chunk_text_def clean_text_letters
    apply (subst chunk_loop.simps, simp add: w0)
    apply (subst chunk_loop.simps, simp add: w1)
    apply (subst chunk_loop.simps, simp add: chunk_data_def strip_letters)
    done
qed

text \<open>
  C1 as stated fails at both ends of its range, with the defaults: the empty text is
  cleaned to a text of length 0 and yields no chunk, and a text of 900 letters yields
  two chunks, the whole text and then its last 100 characters again, because the next
  window starts at 800, which is still inside the text.
\<close>

theorem single_chunk_counterexample:
  "chunk_text ascii_ucd 1000 200 [] [] = Some [] \<and>
   int (length (clean_text ascii_ucd (replicate 900 97))) \<le> 1000 \<and>
   map_option length (chunk_text ascii_ucd 1000 200 (replicate 900 97) []) = Some 2"
proof -
  have "clean_text ascii_ucd [] = []" by (simp add: clean_text_def strip_def)
  then have "chunk_text ascii_ucd 1000 200 [] [] = Some []"
    unfolding chunk_text_def by (subst chunk_loop.simps) simp
  then show ?thesis by (simp add: clean_text_letters tail_chunk_example)
qed


text \<open>An instance with the defaults and the metadata of one source.\<close>

theorem chunk_text_single_witness:
  "(0::int) \<le> 200 \<and>
   clean_text ascii_ucd (lit ''  Hello,   world!  '') \<noteq> [] \<and>
   int (length (clean_text ascii_ucd (lit ''  Hello,   world!  ''))) \<le> 1000 - 200 \<and>
   ''text'' \<notin> set (keys [(''source'', PStr (lit ''a.pdf''))]) \<and>
   (\<exists>d. chunk_text ascii_ucd 1000 200 (lit ''  Hello,   world!  '') [(''source'', PStr (lit ''a.pdf''))] = Some [d] \<and>
        map_of d ''text'' = Some (PStr (clean_text ascii_ucd (lit ''  Hello,   world!  ''))))"
proof -
  have h0: "(0::int) \<le> 200" by simp
  have h1: "clean_text ascii_ucd (lit ''  Hello,   world!  '') \<noteq> []" by code_simp
  have h2: "int (length (clean_text ascii_ucd (lit ''  Hello,   world!  ''))) \<le> 1000 - 200"
    by code_simp
  have h3: "''text'' \<notin> set (keys [(''source'', PStr (lit ''a.pdf''))])"
    by (simp add: keys_def)
  from chunk_text_single[OF h0 h1 h2 h3] h0 h1 h2 h3 show ?thesis by blast
qed

lemma clean_two_sentences: "clean_text ascii_ucd two_sentences = two_sentences"
  using ascii_letter ascii_period by (intro clean_text_id) (auto simp: two_sentences_def)

lemma length_two_sentences: "length two_sentences = 1201"
  by (simp add: two_sentences_def)

lemma slice_two_sentences_0:
  "slice two_sentences 0 1000 = replicate 600 97 @ 46 # replicate 399 97"
  by (simp add: slice_nonneg two_sentences_def)

lemma sentence_end_two_sentences_0: "sentence_end (slice two_sentences 0 1000) = 600"
  by (simp add: slice_two_sentences_0 sentence_end_def rfind_def rfind_from_append rfind_from_replicate)

lemma truncates_two_sentences_0: "truncates 1000 two_sentences 0"
  by (simp add: truncates_def length_two_sentences sentence_end_two_sentences_0)

lemma truncates_two_sentences_401: "\<not> truncates 1000 two_sentences 401"
  by (simp add: truncates_def length_two_sentences)

text \<open>
  The same on \<open>two_sentences\<close>: the window at 0 is truncated after the sentence end at
  position 600 and the next window starts at 401; the window at 401 is not truncated.
\<close>

theorem chunking_terminates_default_witness:
  "((0::int) \<le> 0 \<and> 0 < int (length (clean_text ascii_ucd two_sentences))) \<and>
   truncates 1000 (clean_text ascii_ucd two_sentences) 0 \<and>
   ((0::int) \<le> 401 \<and> 401 < int (length (clean_text ascii_ucd two_sentences))) \<and>
   \<not> truncates 1000 (clean_text ascii_ucd two_sentences) 401 \<and>
   (\<exists>chunks. chunk_text ascii_ucd 1000 200 two_sentences [] = Some chunks) \<and>
   snd (window 1000 (clean_text ascii_ucd two_sentences) 0) - 200 - 0 > 1000 div 2 - 200 \<and>
   snd (window 1000 (clean_text ascii_ucd two_sentences) 401) - 200 - 401 = 1000 - 200"
proof -
  let ?T = "clean_text ascii_ucd two_sentences"
  have h0: "(0::int) \<le> 0 \<and> 0 < int (length ?T)"
    by (simp add: clean_two_sentences length_two_sentences)
  have t0: "truncates 1000 ?T 0"
    by (simp add: clean_two_sentences truncates_two_sentences_0)
  have h1: "(0::int) \<le> 401 \<and> 401 < int (length ?T)"
    by (simp add: clean_two_sentences length_two_sentences)
  have t1: "\<not> truncates 1000 ?T 401"
    by (simp add: clean_two_sentences truncates_two_sentences_401)
  note inst = chunking_terminates_default[of ascii_ucd two_sentences "[]"]
  from inst have ex: "\<exists>chunks. chunk_text ascii_ucd 1000 200 two_sentences [] = Some chunks"
    by (rule conjunct1)
  from inst have all: "\<forall>start. 0 \<le> start \<and> start < int (length ?T) \<longrightarrow>
      start < snd (window 1000 ?T start) - 200 \<and>
      (if truncates 1000 ?T start
       then snd (window 1000 ?T start) - 200 - start > 1000 div 2 - 200
       else snd (window 1000 ?T start) - 200 - start = 1000 - 200)"
    by (rule conjunct2)
  from all h0 t0 have a0: "snd (window 1000 ?T 0) - 200 - 0 > 1000 div 2 - 200"
    by (auto simp only: if_True)
  from all h1 t1 have a1: "snd (window 1000 ?T 401) - 200 - 401 = 1000 - 200"
    by (auto simp only: if_False)
  from h0 t0 h1 t1 ex a0 a1 show ?thesis by blast
qed


section \<open>Properties of the vector database\<close>

text \<open>
  C6. For every query text and every requested result count, if the index is not
  initialised (\<open>None\<close>) or the document list is empty, \<open>query\<close> returns the empty
  result with no documents, no metadata records and no distances, and raises nothing.
\<close>

theorem query_empty:
  "index st = None \<or> documents st = [] \<Longrightarrow>
   query ev st query_text n_results =
     Inr \<lparr> result_documents = [], result_metadatas = [], result_distances = [] \<rparr>"
  by (auto simp: query_def split: option.splits)

text \<open>
  Two instances: the database as constructed, whose index is \<open>None\<close>, and the
  database after \<open>create_collection\<close> on an empty directory, whose index exists and
  holds nothing.
\<close>

theorem query_empty_witness:
  "(index (init_db empty_disk) = None \<or> documents (init_db empty_disk) = []) \<and>
   query example_env (init_db empty_disk) (lit ''hello'') 5 =
     Inr \<lparr> result_documents = [], result_metadatas = [], result_distances = [] \<rparr> \<and>
   (index (create_collection (init_db empty_disk) (lit ''documents'')) = None \<or>
    documents (create_collection (init_db empty_disk) (lit ''documents'')) = []) \<and>
   index (create_collection (init_db empty_disk) (lit ''documents'')) \<noteq> None \<and>
   query example_env (create_collection (init_db empty_disk) (lit ''documents'')) (lit ''hello'') 5 =
     Inr \<lparr> result_documents = [], result_metadatas = [], result_distances = [] \<rparr>"
proof -
  have h1: "index (init_db empty_disk) = None \<or> documents (init_db empty_disk) = []"
    by (simp add: init_db_def)
  have h2: "index (create_collection (init_db empty_disk) (lit ''documents'')) = None \<or>
    documents (create_collection (init_db empty_disk) (lit ''documents'')) = []"
    by (simp add: init_db_def create_collection_def empty_disk_def new_collection_def)
  have h3: "index (create_collection (init_db empty_disk) (lit ''documents'')) \<noteq> None"
    by (simp add: init_db_def create_collection_def empty_disk_def new_collection_def)
  from query_empty[OF h1, of example_env "lit ''hello''" 5]
       query_empty[OF h2, of example_env "lit ''hello''" 5] h1 h2 h3
  show ?thesis by blast
qed




lemma try_map_set: "try_map f xs = Inr ys \<Longrightarrow> y \<in> set ys \<Longrightarrow> \<exists>x \<in> set xs. f x = Inr y"
  by (induction xs arbitrary: ys) (auto split: sum.splits)












lemma get_embedding_example:
  "get_embedding example_env (PStr s) = Inr (real (length s) # replicate 383 0)"
  by (simp add: get_embedding_def example_env_def)

lemma example_metadatas_eq: "map (chunk_metadata example_env) example_chunks = example_metadatas"
  by (simp add: chunk_metadata_def example_chunks_def example_metadatas_def dict_get_def
      py_str_def digits.simps lit_def)

lemma example_db_eq:
  "example_db =
     \<lparr> index = Some example_index,
       documents = [PStr (lit ''bbb''), PStr (lit ''a''), PStr (lit ''ccc'')],
       metadatas = example_metadatas,
       collection_name = Some (lit ''documents''),
       files = \<lparr> index_file = Stored example_index,
                 docs_file = Stored [PStr (lit ''bbb''), PStr (lit ''a''), PStr (lit ''ccc'')],
                 meta_file = Stored example_metadatas \<rparr> \<rparr>"
proof -
  have texts: "try_map (\<lambda>chunk. dict_item chunk ''text'') example_chunks =
      Inr [PStr (lit ''bbb''), PStr (lit ''a''), PStr (lit ''ccc'')]"
    by (simp add: example_chunks_def dict_item_def)
  have embs: "get_batch_embeddings example_env [PStr (lit ''bbb''), PStr (lit ''a''), PStr (lit ''ccc'')] =
      Inr [3 # replicate 383 0, 1 # replicate 383 0, 3 # replicate 383 0]"
    by (simp add: get_batch_embeddings_def get_embedding_example np_array_def lit_def)
  have st1: "create_collection (init_db empty_disk) (lit ''documents'') =
      \<lparr> index = Some (IndexFlatL2 384), documents = [], metadatas = [],
        collection_name = Some (lit ''documents''), files = empty_disk \<rparr>"
    by (simp add: create_collection_def init_db_def empty_disk_def new_collection_def
        embedding_dim_def Let_def)
  have add: "index_add (IndexFlatL2 384) [3 # replicate 383 0, 1 # replicate 383 0, 3 # replicate 383 0]
      = Inr example_index"
    by (simp add: index_add_def IndexFlatL2_def example_index_def)
  show ?thesis
    unfolding example_db_def run_def
    by (simp add: add_documents_def Let_def st1[unfolded init_db_def] init_db_def texts embs add save_def example_metadatas_eq)
qed

lemma try_map_list_item:
  "\<forall>i \<in> set ls. i < length xs \<Longrightarrow> try_map (list_item xs) (map int ls) = Inr (map ((!) xs) ls)"
  by (induction ls) (simp_all add: list_item_def)

lemma zip_enumerate:
  "zip (map f vs) [0..<length vs] = map (\<lambda>i. (f (vs ! i), i)) [0..<length vs]"
  by (rule nth_equalityI) simp_all

lemma index_search_ranked:
  assumes "length q = dimension ix"
  shows "\<exists>labels. index_search ix q (int k) =
            Inr (map (\<lambda>i. l2sqr q (vectors ix ! i)) labels, map int labels) \<and>
          length labels = min k (ntotal ix) \<and> distinct labels \<and>
          (\<forall>i \<in> set labels. i < ntotal ix) \<and>
          sorted_wrt (<) (map (\<lambda>i. (l2sqr q (vectors ix ! i), i)) labels) \<and>
          (\<forall>i \<in> set labels. \<forall>j. j < ntotal ix \<and> j \<notin> set labels \<longrightarrow>
              (l2sqr q (vectors ix ! i), i) < (l2sqr q (vectors ix ! j), j))"
proof -
  let ?n = "ntotal ix"
  let ?key = "\<lambda>i. (l2sqr q (vectors ix ! i), i)"
  define ranked where "ranked = sort (zip (map (l2sqr q) (vectors ix)) [0..<?n])"
  define top where "top = take k ranked"
  define labels where "labels = map snd top"
  have pairs: "zip (map (l2sqr q) (vectors ix)) [0..<?n] = map ?key [0..<?n]"
    unfolding ntotal_def by (rule zip_enumerate)
  have set_ranked: "set ranked = ?key ` {..<?n}"
    by (simp add: ranked_def pairs atLeast0LessThan)
  have key: "p = ?key (snd p) \<and> snd p < ?n" if "p \<in> set ranked" for p
    using that set_ranked by auto
  have "distinct (map ?key [0..<?n])" by (simp add: distinct_map inj_on_def)
  then have strict: "sorted_wrt (<) ranked"
    by (simp add: ranked_def pairs strict_sorted_iff)
  have top_sub: "set top \<subseteq> set ranked" unfolding top_def by (rule set_take_subset)
  have top_eq: "map ?key labels = top"
    unfolding labels_def map_map using key top_sub by (intro map_idI) auto
  have fst_key: "fst p = l2sqr q (vectors ix ! snd p)" if "p \<in> set top" for p
  proof -
    from that top_sub have "p \<in> set ranked" by blast
    from key[OF this] have "fst p = fst (?key (snd p))" by simp
    then show ?thesis by simp
  qed
  have fst_top: "map fst top = map (\<lambda>i. l2sqr q (vectors ix ! i)) labels"
    unfolding labels_def map_map by (rule map_cong[OF refl]) (simp add: fst_key)
  have res: "index_search ix q (int k) =
      Inr (map (\<lambda>i. l2sqr q (vectors ix ! i)) labels, map int labels)"
    using assms fst_top
    by (simp add: index_search_def Let_def ranked_def[symmetric] top_def[symmetric] labels_def)
  have "length ranked = ?n" by (simp add: ranked_def ntotal_def)
  then have len: "length labels = min k ?n" by (simp add: labels_def top_def min.commute)
  have "inj_on snd (set ranked)"
  proof (rule inj_onI)
    fix p p' assume "p \<in> set ranked" "p' \<in> set ranked" "snd p = snd p'"
    with key[of p] key[of p'] show "p = p'" by simp
  qed
  then have "distinct (map snd ranked)"
    using strict by (simp add: distinct_map strict_sorted_iff)
  then have dist: "distinct labels"
    unfolding labels_def top_def take_map[symmetric] by (rule distinct_take)
  have bound: "\<forall>i \<in> set labels. i < ?n" using key top_sub by (auto simp: labels_def)
  have srt: "sorted_wrt (<) (map ?key labels)"
    unfolding top_eq top_def using strict by (rule sorted_wrt_take)
  have cut: "?key i < ?key j" if i: "i \<in> set labels" and j: "j < ?n" "j \<notin> set labels" for i j
  proof -
    have "set top = ?key ` set labels" by (simp only: top_eq[symmetric] set_map)
    then have ki: "?key i \<in> set top" using i by blast
    have "?key j \<in> set ranked" using j(1) set_ranked by blast
    moreover have "?key j \<notin> set top" using j(2) by (force simp: labels_def)
    moreover have "set ranked = set top \<union> set (drop k ranked)"
      unfolding top_def by (simp only: set_append[symmetric] append_take_drop_id)
    ultimately have kj: "?key j \<in> set (drop k ranked)" by blast
    have "sorted_wrt (<) (top @ drop k ranked)" using strict by (simp add: top_def)
    then have "\<forall>x \<in> set top. \<forall>y \<in> set (drop k ranked). x < y"
      unfolding sorted_wrt_append by blast
    then show ?thesis using ki kj by blast
  qed
  from res len dist bound srt cut show ?thesis by blast
qed

text \<open>
  C3. Let the collection be initialised and hold \<open>n > 0\<close> documents, with as many
  metadata records and vectors, let the embedding of the query text be returned and have
  the dimension of the index, and let \<open>k\<close> be any natural number. Then \<open>query\<close>
  returns exactly \<open>min k n\<close> triples, those of a list \<open>labels\<close> of distinct positions:
  the document, the metadata record and the squared Euclidean distance to the query
  embedding of each. The distances ascend; no position left out is closer than one
  returned, and one at the same distance as a returned one was inserted later; returned
  positions at equal distance are in insertion order. Here \<open>search\<close> is the model
  written from the spec.
\<close>

theorem query_nearest:
  assumes "index st = Some ix" and "documents st \<noteq> []"
    and "length (documents st) = ntotal ix" and "length (metadatas st) = ntotal ix"
    and "get_embedding ev (PStr query_text) = Inr v" and "length v = dimension ix"
  shows "\<exists>labels.
     query ev st query_text (int k) =
       Inr \<lparr> result_documents = map ((!) (documents st)) labels,
             result_metadatas = map ((!) (metadatas st)) labels,
             result_distances = map (\<lambda>i. l2sqr v (vectors ix ! i)) labels \<rparr> \<and>
     length labels = min k (length (documents st)) \<and>
     distinct labels \<and> (\<forall>i \<in> set labels. i < length (documents st)) \<and>
     sorted (map (\<lambda>i. l2sqr v (vectors ix ! i)) labels) \<and>
     (\<forall>i \<in> set labels. \<forall>j. j < length (documents st) \<and> j \<notin> set labels \<longrightarrow>
        l2sqr v (vectors ix ! i) \<le> l2sqr v (vectors ix ! j) \<and>
        (l2sqr v (vectors ix ! i) = l2sqr v (vectors ix ! j) \<longrightarrow> i < j)) \<and>
     (\<forall>a b. a < b \<and> b < length labels \<and>
        l2sqr v (vectors ix ! (labels ! a)) = l2sqr v (vectors ix ! (labels ! b)) \<longrightarrow>
        labels ! a < labels ! b)"
proof -
  let ?n = "length (documents st)"
  let ?f = "\<lambda>i. l2sqr v (vectors ix ! i)"
  let ?key = "\<lambda>i. (?f i, i)"
  have clamp: "min (int k) (int ?n) = int (min k ?n)" by simp
  obtain labels where
    res: "index_search ix v (int (min k ?n)) = Inr (map ?f labels, map int labels)"
    and len: "length labels = min (min k ?n) (ntotal ix)"
    and dist: "distinct labels"
    and bound: "\<forall>i \<in> set labels. i < ntotal ix"
    and srt: "sorted_wrt (<) (map ?key labels)"
    and cut: "\<forall>i \<in> set labels. \<forall>j. j < ntotal ix \<and> j \<notin> set labels \<longrightarrow> ?key i < ?key j"
    using index_search_ranked[OF assms(6), of "min k ?n"] by blast
  have docs: "try_map (list_item (documents st)) (map int labels) = Inr (map ((!) (documents st)) labels)"
    using bound assms(3) by (intro try_map_list_item) simp
  have metas: "try_map (list_item (metadatas st)) (map int labels) = Inr (map ((!) (metadatas st)) labels)"
    using bound assms(4) by (intro try_map_list_item) simp
  have q: "query ev st query_text (int k) =
       Inr \<lparr> result_documents = map ((!) (documents st)) labels,
             result_metadatas = map ((!) (metadatas st)) labels,
             result_distances = map ?f labels \<rparr>"
    using assms(1,2,5) res docs metas by (simp add: query_def clamp)
  have len': "length labels = min k ?n" using len assms(3) by simp
  have s1: "sorted_wrt (\<lambda>a b. ?key a < ?key b) labels"
    using srt by (simp only: sorted_wrt_map)
  have "sorted_wrt (\<lambda>a b. ?f a \<le> ?f b) labels"
    by (rule sorted_wrt_mono_rel[OF _ s1]) auto
  then have sorted: "sorted (map ?f labels)" by (simp only: sorted_map)
  have closest: "\<forall>i \<in> set labels. \<forall>j. j < ?n \<and> j \<notin> set labels \<longrightarrow>
        ?f i \<le> ?f j \<and> (?f i = ?f j \<longrightarrow> i < j)"
  proof (intro ballI allI impI)
    fix i j assume i: "i \<in> set labels" and j: "j < ?n \<and> j \<notin> set labels"
    then have "?key i < ?key j" using cut assms(3) by simp
    then show "?f i \<le> ?f j \<and> (?f i = ?f j \<longrightarrow> i < j)" by auto
  qed
  have ties: "\<forall>a b. a < b \<and> b < length labels \<and> ?f (labels ! a) = ?f (labels ! b) \<longrightarrow>
        labels ! a < labels ! b"
  proof (intro allI impI)
    fix a b assume ab: "a < b \<and> b < length labels \<and> ?f (labels ! a) = ?f (labels ! b)"
    then have "?key (labels ! a) < ?key (labels ! b)"
      using sorted_wrt_nth_less[OF s1, of a b] by simp
    with ab show "labels ! a < labels ! b" by simp
  qed
  from q len' dist bound assms(3) sorted closest ties show ?thesis by auto
qed

lemma l2sqr_example: "l2sqr (a # replicate n 0) (b # replicate n 0) = (a - b)\<^sup>2"
  by (simp add: l2sqr_def zip_replicate sum_list_replicate)

lemma query_example:
  "query example_env example_db (lit ''ddd'') 2 =
     Inr \<lparr> result_documents = [PStr (lit ''bbb''), PStr (lit ''ccc'')],
           result_metadatas = [example_metadatas ! 0, example_metadatas ! 2],
           result_distances = [0, 0] \<rparr>"
proof -
  have e: "get_embedding example_env (PStr (lit ''ddd'')) = Inr (3 # replicate 383 0)"
    by (simp add: get_embedding_example lit_def)
  have s: "index_search example_index (3 # replicate 383 0) 2 = Inr ([0, 0], [0, 2])"
    by (simp add: index_search_def example_index_def ntotal_def l2sqr_example Let_def
        upt_rec[of 0] upt_rec[of 1] upt_rec[of 2] upt_rec[of 3])
  show ?thesis
    by (simp add: query_def example_db_eq e s list_item_def example_metadatas_def)
qed

text \<open>
  An instance: the three documents \<open>bbb\<close>, \<open>a\<close>, \<open>ccc\<close>, the query \<open>ddd\<close> and
  \<open>k = 2\<close>. The first and the third document are at distance 0 and are returned in
  this order; the second is at distance 4.
\<close>

theorem query_nearest_witness:
  "index example_db = Some example_index \<and> documents example_db \<noteq> [] \<and>
   length (documents example_db) = ntotal example_index \<and>
   length (metadatas example_db) = ntotal example_index \<and>
   get_embedding example_env (PStr (lit ''ddd'')) = Inr (3 # replicate 383 0) \<and>
   length (3 # replicate 383 (0::real)) = dimension example_index \<and>
   query example_env example_db (lit ''ddd'') (int 2) =
     Inr \<lparr> result_documents = [PStr (lit ''bbb''), PStr (lit ''ccc'')],
           result_metadatas = [example_metadatas ! 0, example_metadatas ! 2],
           result_distances = [0, 0] \<rparr> \<and>
   (\<exists>labels.
     query example_env example_db (lit ''ddd'') (int 2) =
       Inr \<lparr> result_documents = map ((!) (documents example_db)) labels,
             result_metadatas = map ((!) (metadatas example_db)) labels,
             result_distances = map (\<lambda>i. l2sqr (3 # replicate 383 0) (vectors example_index ! i)) labels \<rparr> \<and>
     length labels = min 2 (length (documents example_db)) \<and>
     distinct labels \<and> (\<forall>i \<in> set labels. i < length (documents example_db)) \<and>
     sorted (map (\<lambda>i. l2sqr (3 # replicate 383 0) (vectors example_index ! i)) labels) \<and>
     (\<forall>i \<in> set labels. \<forall>j. j < length (documents example_db) \<and> j \<notin> set labels \<longrightarrow>
        l2sqr (3 # replicate 383 0) (vectors example_index ! i) \<le> l2sqr (3 # replicate 383 0) (vectors example_index ! j) \<and>
        (l2sqr (3 # replicate 383 0) (vectors example_index ! i) = l2sqr (3 # replicate 383 0) (vectors example_index ! j) \<longrightarrow> i < j)) \<and>
     (\<forall>a b. a < b \<and> b < length labels \<and>
        l2sqr (3 # replicate 383 0) (vectors example_index ! (labels ! a)) = l2sqr (3 # replicate 383 0) (vectors example_index ! (labels ! b)) \<longrightarrow>
        labels ! a < labels ! b))"
proof -
  have h1: "index example_db = Some example_index" by (simp add: example_db_eq)
  have h2: "documents example_db \<noteq> []" by (simp add: example_db_eq)
  have h3: "length (documents example_db) = ntotal example_index"
    by (simp add: example_db_eq example_index_def ntotal_def)
  have h4: "length (metadatas example_db) = ntotal example_index"
    by (simp add: example_db_eq example_index_def ntotal_def example_metadatas_def)
  have h5: "get_embedding example_env (PStr (lit ''ddd'')) = Inr (3 # replicate 383 0)"
    by (simp add: get_embedding_example lit_def)
  have h6: "length (3 # replicate 383 (0::real)) = dimension example_index"
    by (simp add: example_index_def)
  have q: "query example_env example_db (lit ''ddd'') (int 2) =
     Inr \<lparr> result_documents = [PStr (lit ''bbb''), PStr (lit ''ccc'')],
           result_metadatas = [example_metadatas ! 0, example_metadatas ! 2],
           result_distances = [0, 0] \<rparr>"
    using query_example by simp
  from query_nearest[OF h1 h2 h3 h4 h5 h6, of 2] h1 h2 h3 h4 h5 h6 q show ?thesis by blast
qed



lemma chunk_metadata_keys: "keys (chunk_metadata ev chunk) = [''source'', ''chunk_id'', ''title'']"
  by (simp add: keys_def chunk_metadata_def)

lemma chunk_metadata_chunk_id:
  "map_of (chunk_metadata ev chunk) ''chunk_id'' =
     Some (PStr (py_str (str_other ev) (dict_get chunk ''chunk_id'' (PInt 0))))"
  by (simp add: chunk_metadata_def)

lemma add_documents_metadatas:
  assumes "add_documents ev st chunks name = (None, st')"
  shows "\<exists>old. metadatas st' = old @ map (chunk_metadata ev) chunks"
  using assms
  by (auto simp: add_documents_def Let_def save_def split: sum.splits option.splits if_splits)

lemma list_item_set: "list_item xs i = Inr x \<Longrightarrow> x \<in> set xs"
  by (auto simp: list_item_def split: if_splits)

lemma query_metadatas_subset:
  assumes "query ev st query_text k = Inr r"
  shows "set (result_metadatas r) \<subseteq> set (metadatas st)"
proof
  fix m assume m: "m \<in> set (result_metadatas r)"
  show "m \<in> set (metadatas st)"
  proof (cases "index st = None \<or> documents st = []")
    case True
    then have "result_metadatas r = []"
      using assms by (auto simp: query_def split: option.splits)
    with m show ?thesis by simp
  next
    case False
    then obtain indices where "try_map (list_item (metadatas st)) indices = Inr (result_metadatas r)"
      using assms by (auto simp: query_def split: option.splits sum.splits if_splits)
    from try_map_set[OF this m] show ?thesis by (auto dest: list_item_set)
  qed
qed

lemma source_entry_shape:
  assumes "source_entry distances (i, doc, metadata) = Inr v"
  shows "\<exists>kvs. v = PDict kvs \<and> keys kvs = source_keys \<and>
           map_of kvs ''chunk_id'' = Some (dict_get metadata ''chunk_id'' (PInt (int i)))"
  using assms by (auto simp: source_entry_def keys_def source_keys_def split: sum.splits)

lemma answer_body_cases:
  assumes "answer_body ev st question k = Inr r"
  shows "r = no_documents_answer \<or>
         (\<exists>res answer sources. query ev st question k = Inr res \<and>
            try_map (source_entry (result_distances res))
              (zip [0..<length (result_documents res)]
                 (zip (result_documents res) (result_metadatas res))) = Inr sources \<and>
            r = [(''answer'', PStr answer), (''sources'', PList sources),
                 (''context_used'', PInt (int (length (result_documents res))))])"
  using assms
  by (auto simp: answer_body_def Let_def split: sum.splits if_splits)

lemma answer_question_cases:
  "(\<exists>e. answer_body ev st question k = Inl e \<and> answer_question ev st question k = Inr (error_answer e))
   \<or> (\<exists>r. answer_body ev st question k = Inr r \<and> answer_question ev st question k = Inr r)"
  by (cases "answer_body ev st question k") (simp_all add: answer_question_def)

section \<open>Properties of the answer\<close>

lemma generate_response_example: "generate_response example_env prompt n = Inr (lit ''An answer.'')"
  by (simp add: generate_response_def example_env_def strip_def ascii_ucd_def lit_def)

lemma answer_example: "answer_question example_env example_db (lit ''ddd'') 2 = Inr example_answer"
proof -
  have "answer_body example_env example_db (lit ''ddd'') 2 = Inr example_answer"
    unfolding answer_body_def query_example
    by (simp add: generate_response_example Let_def)
       (simp add: source_entry_def text_preview_def py_len_def list_item_def dict_get_def
          example_metadatas_def example_answer_def example_sources_def lit_def
          upt_rec[of 0] upt_rec[of 1] upt_rec[of 2])
  then show ?thesis by (simp add: answer_question_def)
qed

lemma query_failing_embedding:
  "query failing_embedding_env example_db (lit ''ddd'') 2 =
     Inl (Exn ''Exception'' (lit ''Error getting embedding: timed out''))"
  by (simp add: query_def example_db_eq get_embedding_def failing_embedding_env_def lit_def)

text \<open>
  C5. \<open>answer_question\<close> never raises: for every question, every requested number of
  context documents and every database state it returns a record. Whenever the body of
  its \<open>try\<close> raises an exception \<open>e\<close>, the record returned is the error record: its
  \<open>answer\<close> is \<open>Error generating answer: \<close> followed by the message of \<open>e\<close>, and its
  \<open>sources\<close> is the empty list. The body raises what retrieval raises (the query) and what
  generation raises on the assembled prompt; prompt assembly itself cannot raise. Exceptions outside the class \<open>Exception\<close>
  are not modelled.
\<close>

theorem answer_question_never_raises:
  "\<exists>r. answer_question ev st question k = Inr r \<and>
     (\<forall>e. answer_body ev st question k = Inl e \<longrightarrow>
        r = error_answer e \<and>
        map_of r ''answer'' = Some (PStr (lit ''Error generating answer: '' @ msg e)) \<and>
        map_of r ''sources'' = Some (PList [])) \<and>
     (\<forall>e. query ev st question k = Inl e \<longrightarrow> answer_body ev st question k = Inl e) \<and>
     (\<forall>res e. query ev st question k = Inr res \<and> result_documents res \<noteq> [] \<and>
        generate_response ev (create_rag_prompt ev question (result_documents res)) 500 = Inl e \<longrightarrow>
        answer_body ev st question k = Inl e)"
proof (cases "answer_body ev st question k")
  case (Inl e)
  then have "answer_question ev st question k = Inr (error_answer e)"
    by (simp add: answer_question_def)
  moreover have "map_of (error_answer e) ''answer'' = Some (PStr (lit ''Error generating answer: '' @ msg e))"
    "map_of (error_answer e) ''sources'' = Some (PList [])"
    by (simp_all add: error_answer_def)
  ultimately show ?thesis using Inl
    by (auto simp: answer_body_def Let_def split: sum.splits if_splits)
next
  case (Inr r)
  then have "answer_question ev st question k = Inr r" by (simp add: answer_question_def)
  then show ?thesis using Inr
    by (auto simp: answer_body_def Let_def split: sum.splits if_splits)
qed

text \<open>
  Two instances on three stored documents: the embedding endpoint times out, and the
  chat endpoint fails after the retrieval has succeeded.
\<close>

theorem answer_question_never_raises_witness:
  "answer_body failing_embedding_env example_db (lit ''ddd'') 2 =
     Inl (Exn ''Exception'' (lit ''Error getting embedding: timed out'')) \<and>
   query failing_embedding_env example_db (lit ''ddd'') 2 =
     Inl (Exn ''Exception'' (lit ''Error getting embedding: timed out'')) \<and>
   answer_question failing_embedding_env example_db (lit ''ddd'') 2 =
     Inr [(''answer'', PStr (lit ''Error generating answer: Error getting embedding: timed out'')),
          (''sources'', PList []),
          (''error'', PStr (lit ''Error getting embedding: timed out''))] \<and>
   query failing_chat_env example_db (lit ''ddd'') 2 =
     Inr \<lparr> result_documents = [PStr (lit ''bbb''), PStr (lit ''ccc'')],
           result_metadatas = [example_metadatas ! 0, example_metadatas ! 2],
           result_distances = [0, 0] \<rparr> \<and>
   generate_response failing_chat_env
     (create_rag_prompt failing_chat_env (lit ''ddd'') [PStr (lit ''bbb''), PStr (lit ''ccc'')]) 500 =
     Inl (Exn ''Exception'' (lit ''Error generating response: 503'')) \<and>
   answer_question failing_chat_env example_db (lit ''ddd'') 2 =
     Inr [(''answer'', PStr (lit ''Error generating answer: Error generating response: 503'')),
          (''sources'', PList []),
          (''error'', PStr (lit ''Error generating response: 503''))]"
proof -
  let ?e = "Exn ''Exception'' (lit ''Error getting embedding: timed out'')"
  let ?g = "Exn ''Exception'' (lit ''Error generating response: 503'')"
  let ?res = "\<lparr> result_documents = [PStr (lit ''bbb''), PStr (lit ''ccc'')],
           result_metadatas = [example_metadatas ! 0, example_metadatas ! 2],
           result_distances = [0, 0] \<rparr>"
  have q: "query failing_embedding_env example_db (lit ''ddd'') 2 = Inl ?e"
    by (rule query_failing_embedding)
  obtain r where r: "answer_question failing_embedding_env example_db (lit ''ddd'') 2 = Inr r"
    and err: "\<forall>e. answer_body failing_embedding_env example_db (lit ''ddd'') 2 = Inl e \<longrightarrow>
        r = error_answer e \<and>
        map_of r ''answer'' = Some (PStr (lit ''Error generating answer: '' @ msg e)) \<and>
        map_of r ''sources'' = Some (PList [])"
    and qe: "\<forall>e. query failing_embedding_env example_db (lit ''ddd'') 2 = Inl e \<longrightarrow>
        answer_body failing_embedding_env example_db (lit ''ddd'') 2 = Inl e"
    using answer_question_never_raises[of failing_embedding_env example_db "lit ''ddd''" 2]
    by (elim exE conjE)
  from qe[rule_format, OF q]
  have b: "answer_body failing_embedding_env example_db (lit ''ddd'') 2 = Inl ?e" .
  from err[rule_format, OF b] have "r = error_answer ?e" by (rule conjunct1)
  then have r1: "r = [(''answer'', PStr (lit ''Error generating answer: Error getting embedding: timed out'')),
          (''sources'', PList []),
          (''error'', PStr (lit ''Error getting embedding: timed out''))]"
    by (simp add: error_answer_def lit_def)
  have "get_embedding failing_chat_env v = get_embedding example_env v" for v
    by (simp add: get_embedding_def failing_chat_env_def)
  then have "query failing_chat_env example_db (lit ''ddd'') 2 = query example_env example_db (lit ''ddd'') 2"
    unfolding query_def by (simp only:)
  then have q2: "query failing_chat_env example_db (lit ''ddd'') 2 = Inr ?res"
    by (simp only: query_example)
  have g: "generate_response failing_chat_env
     (create_rag_prompt failing_chat_env (lit ''ddd'') [PStr (lit ''bbb''), PStr (lit ''ccc'')]) 500 = Inl ?g"
    by (simp add: generate_response_def failing_chat_env_def lit_def)
  obtain r' where r': "answer_question failing_chat_env example_db (lit ''ddd'') 2 = Inr r'"
    and err': "\<forall>e. answer_body failing_chat_env example_db (lit ''ddd'') 2 = Inl e \<longrightarrow>
        r' = error_answer e \<and>
        map_of r' ''answer'' = Some (PStr (lit ''Error generating answer: '' @ msg e)) \<and>
        map_of r' ''sources'' = Some (PList [])"
    and ge: "\<forall>res e. query failing_chat_env example_db (lit ''ddd'') 2 = Inr res \<and>
        result_documents res \<noteq> [] \<and>
        generate_response failing_chat_env
          (create_rag_prompt failing_chat_env (lit ''ddd'') (result_documents res)) 500 = Inl e \<longrightarrow>
        answer_body failing_chat_env example_db (lit ''ddd'') 2 = Inl e"
    using answer_question_never_raises[of failing_chat_env example_db "lit ''ddd''" 2]
    by (elim exE conjE)
  have "query failing_chat_env example_db (lit ''ddd'') 2 = Inr ?res \<and>
        result_documents ?res \<noteq> [] \<and>
        generate_response failing_chat_env
          (create_rag_prompt failing_chat_env (lit ''ddd'') (result_documents ?res)) 500 = Inl ?g"
    using q2 g by simp
  from ge[rule_format, OF this]
  have b': "answer_body failing_chat_env example_db (lit ''ddd'') 2 = Inl ?g" .
  from err'[rule_format, OF b'] have "r' = error_answer ?g" by (rule conjunct1)
  then have r2: "r' = [(''answer'', PStr (lit ''Error generating answer: Error generating response: 503'')),
          (''sources'', PList []),
          (''error'', PStr (lit ''Error generating response: 503''))]"
    by (simp add: error_answer_def lit_def)
  from b q r r1 q2 g r' r2 show ?thesis by simp
qed

lemma try_map_source_entry_shape:
  assumes "try_map (source_entry distances) (zip [0..<length docs] (zip docs metas)) = Inr sources"
    and "s \<in> set sources"
  shows "\<exists>kvs. s = PDict kvs \<and> keys kvs = source_keys \<and>
           (\<exists>i metadata. metadata \<in> set metas \<and>
              map_of kvs ''chunk_id'' = Some (dict_get metadata ''chunk_id'' (PInt (int i))))"
proof -
  from try_map_set[OF assms] obtain x where
    x: "x \<in> set (zip [0..<length docs] (zip docs metas))" and e: "source_entry distances x = Inr s"
    by blast
  obtain i doc metadata where xe: "x = (i, doc, metadata)" by (cases x)
  from x xe have "metadata \<in> set metas" by (auto dest!: set_zip_rightD)
  with source_entry_shape[OF e[unfolded xe]] show ?thesis by blast
qed

lemma answer_shapeI:
  assumes "answer_question ev st question k = Inr r"
    and "map_of r ''answer'' = Some (PStr a)"
    and "map_of r ''sources'' = Some (PList sources)"
    and "\<forall>s \<in> set sources. \<exists>kvs. s = PDict kvs \<and> keys kvs = source_keys"
    and "r = no_documents_answer \<or> (\<exists>e. r = error_answer e) \<or>
      (keys r = [''answer'', ''sources'', ''context_used''] \<and>
       (\<exists>n. map_of r ''context_used'' = Some (PInt n)))"
  shows "\<exists>r. answer_question ev st question k = Inr r \<and>
     (\<exists>a. map_of r ''answer'' = Some (PStr a)) \<and>
     (\<exists>sources. map_of r ''sources'' = Some (PList sources) \<and>
        (\<forall>s \<in> set sources. \<exists>kvs. s = PDict kvs \<and> keys kvs = source_keys)) \<and>
     (r = no_documents_answer \<or> (\<exists>e. r = error_answer e) \<or>
      (keys r = [''answer'', ''sources'', ''context_used''] \<and>
       (\<exists>n. map_of r ''context_used'' = Some (PInt n))))"
  using assms by blast

text \<open>
  C7, as amended. For every question and every database state \<open>answer_question\<close>
  returns a record with an \<open>answer\<close> string and a \<open>sources\<close> list whose elements carry
  exactly \<open>chunk_id\<close>, \<open>source\<close>, \<open>title\<close>, \<open>text_preview\<close> and \<open>relevance_score\<close>.
  The record is the no-documents sentinel, which has these two keys only, or the error
  record of a caught exception, which has \<open>error\<close> as its third key, or the record of
  the success path, which alone carries the integer \<open>context_used\<close>.
\<close>

theorem answer_question_shape:
  "\<exists>r. answer_question ev st question k = Inr r \<and>
     (\<exists>a. map_of r ''answer'' = Some (PStr a)) \<and>
     (\<exists>sources. map_of r ''sources'' = Some (PList sources) \<and>
        (\<forall>s \<in> set sources. \<exists>kvs. s = PDict kvs \<and> keys kvs = source_keys)) \<and>
     (r = no_documents_answer \<or> (\<exists>e. r = error_answer e) \<or>
      (keys r = [''answer'', ''sources'', ''context_used''] \<and>
       (\<exists>n. map_of r ''context_used'' = Some (PInt n))))"
proof (cases "answer_body ev st question k")
  case (Inl e)
  then have a: "answer_question ev st question k = Inr (error_answer e)"
    by (simp add: answer_question_def)
  have 1: "map_of (error_answer e) ''answer'' = Some (PStr (lit ''Error generating answer: '' @ msg e))"
    and 2: "map_of (error_answer e) ''sources'' = Some (PList [])"
    by (simp_all add: error_answer_def)
  have 3: "\<forall>s \<in> set []. \<exists>kvs. s = PDict kvs \<and> keys kvs = source_keys" by simp
  show ?thesis by (rule answer_shapeI[OF a 1 2 3], rule disjI2, rule disjI1, rule exI, rule refl)
next
  case (Inr r)
  then have a: "answer_question ev st question k = Inr r" by (simp add: answer_question_def)
  from answer_body_cases[OF Inr] consider
      (none) "r = no_documents_answer"
    | (some) res :: query_result and answer sources where
        "try_map (source_entry (result_distances res))
              (zip [0..<length (result_documents res)]
                 (zip (result_documents res) (result_metadatas res))) = Inr sources"
        "r = [(''answer'', PStr answer), (''sources'', PList sources),
                 (''context_used'', PInt (int (length (result_documents res))))]"
    by blast
  then show ?thesis
  proof cases
    case none
    have 1: "map_of r ''answer'' =
        Some (PStr (lit ''No documents found in the database. Please upload a PDF first.''))"
      and 2: "map_of r ''sources'' = Some (PList [])"
      by (simp_all add: none no_documents_answer_def)
    have 3: "\<forall>s \<in> set []. \<exists>kvs. s = PDict kvs \<and> keys kvs = source_keys" by simp
    show ?thesis by (rule answer_shapeI[OF a 1 2 3], rule disjI1, rule none)
  next
    case some
    have 3: "\<forall>s \<in> set sources. \<exists>kvs. s = PDict kvs \<and> keys kvs = source_keys"
    proof
      fix s assume "s \<in> set sources"
      from try_map_source_entry_shape[OF some(1) this]
      show "\<exists>kvs. s = PDict kvs \<and> keys kvs = source_keys"
        by (elim exE conjE) (rule exI, rule conjI)
    qed
    have 1: "map_of r ''answer'' = Some (PStr answer)"
      and 2: "map_of r ''sources'' = Some (PList sources)"
      and 4: "keys r = [''answer'', ''sources'', ''context_used'']"
      and 5: "map_of r ''context_used'' = Some (PInt (int (length (result_documents res))))"
      by (simp_all add: some(2) keys_def)
    show ?thesis
      by (rule answer_shapeI[OF a 1 2 3], rule disjI2, rule disjI2, rule conjI[OF 4], rule exI, rule 5)
  qed
qed

text \<open>
  C7 as stated fails on both paths it names: the sentinel returned on an empty database
  has the keys \<open>answer\<close> and \<open>sources\<close> and no \<open>context_used\<close>, and the record returned
  for a caught exception has \<open>answer\<close>, \<open>sources\<close> and \<open>error\<close> and no \<open>context_used\<close>.
\<close>

theorem answer_question_shape_counterexample:
  "answer_question example_env (init_db empty_disk) (lit ''ddd'') 3 = Inr no_documents_answer \<and>
   keys no_documents_answer = [''answer'', ''sources''] \<and>
   map_of no_documents_answer ''context_used'' = None \<and>
   answer_question failing_embedding_env example_db (lit ''ddd'') 2 =
     Inr (error_answer (Exn ''Exception'' (lit ''Error getting embedding: timed out''))) \<and>
   keys (error_answer (Exn ''Exception'' (lit ''Error getting embedding: timed out''))) =
     [''answer'', ''sources'', ''error''] \<and>
   map_of (error_answer (Exn ''Exception'' (lit ''Error getting embedding: timed out''))) ''context_used'' = None"
proof -
  have "query example_env (init_db empty_disk) (lit ''ddd'') 3 =
      Inr \<lparr> result_documents = [], result_metadatas = [], result_distances = [] \<rparr>"
    by (simp add: query_def init_db_def)
  then have 1: "answer_question example_env (init_db empty_disk) (lit ''ddd'') 3 = Inr no_documents_answer"
    by (simp add: answer_question_def answer_body_def)
  have 2: "answer_question failing_embedding_env example_db (lit ''ddd'') 2 =
     Inr (error_answer (Exn ''Exception'' (lit ''Error getting embedding: timed out'')))"
    by (simp add: answer_question_def answer_body_def query_failing_embedding)
  show ?thesis
    unfolding 1 2 by (simp add: no_documents_answer_def error_answer_def keys_def)
qed

text \<open>
  An instance on the success path: two sources, and \<open>context_used = 2\<close>.
\<close>

theorem answer_question_shape_witness:
  "answer_question example_env example_db (lit ''ddd'') 2 = Inr example_answer \<and>
   map_of example_answer ''answer'' = Some (PStr (lit ''An answer.'')) \<and>
   keys example_answer = [''answer'', ''sources'', ''context_used''] \<and>
   map_of example_answer ''context_used'' = Some (PInt 2) \<and>
   (\<exists>sources. map_of example_answer ''sources'' = Some (PList sources) \<and> sources \<noteq> [] \<and>
      (\<forall>s \<in> set sources. \<exists>kvs. s = PDict kvs \<and> keys kvs = source_keys))"
proof -
  have a: "answer_question example_env example_db (lit ''ddd'') 2 = Inr example_answer"
    by (rule answer_example)
  obtain r where r: "answer_question example_env example_db (lit ''ddd'') 2 = Inr r"
    and s: "\<exists>sources. map_of r ''sources'' = Some (PList sources) \<and>
        (\<forall>s \<in> set sources. \<exists>kvs. s = PDict kvs \<and> keys kvs = source_keys)"
    using answer_question_shape[of example_env example_db "lit ''ddd''" 2] by blast
  from a r have re: "r = example_answer" by simp
  from s re obtain sources where m: "map_of example_answer ''sources'' = Some (PList sources)"
    and sh: "\<forall>s \<in> set sources. \<exists>kvs. s = PDict kvs \<and> keys kvs = source_keys"
    by blast
  from m have ne: "sources \<noteq> []" by (auto simp: example_answer_def example_sources_def)
  have "map_of example_answer ''answer'' = Some (PStr (lit ''An answer.''))"
    and "keys example_answer = [''answer'', ''sources'', ''context_used'']"
    and "map_of example_answer ''context_used'' = Some (PInt 2)"
    by (simp_all add: example_answer_def keys_def)
  with a m sh ne show ?thesis by blast
qed

lemma dict_get_chunk_metadata:
  "dict_get (chunk_metadata ev c) ''chunk_id'' dflt =
     PStr (py_str (str_other ev) (dict_get c ''chunk_id'' (PInt 0)))"
  by (simp add: dict_get_def chunk_metadata_def)

lemma sources_chunk_id_string:
  assumes stored: "\<forall>m \<in> set (metadatas st). \<exists>c. m = chunk_metadata ev c"
    and a: "answer_question ev st question k = Inr r"
    and m: "map_of r ''sources'' = Some (PList sources)"
    and s: "s \<in> set sources"
  shows "\<exists>kvs cid. s = PDict kvs \<and> keys kvs = source_keys \<and>
           map_of kvs ''chunk_id'' = Some (PStr cid)"
proof (cases "answer_body ev st question k")
  case (Inl e)
  then have "r = error_answer e" using a by (simp add: answer_question_def)
  then have "sources = []" using m by (simp add: error_answer_def)
  with s show ?thesis by simp
next
  case (Inr r')
  then have rr: "r' = r" using a by (simp add: answer_question_def)
  from answer_body_cases[OF Inr[unfolded rr]] consider
      (none) "r = no_documents_answer"
    | (some) res :: query_result and answer srcs where
        "query ev st question k = Inr res"
        "try_map (source_entry (result_distances res))
              (zip [0..<length (result_documents res)]
                 (zip (result_documents res) (result_metadatas res))) = Inr srcs"
        "r = [(''answer'', PStr answer), (''sources'', PList srcs),
                 (''context_used'', PInt (int (length (result_documents res))))]"
    by blast
  then show ?thesis
  proof cases
    case none
    then have "sources = []" using m by (simp add: no_documents_answer_def)
    with s show ?thesis by simp
  next
    case some
    have "srcs = sources" using m by (simp add: some(3))
    with s have "s \<in> set srcs" by simp
    from try_map_source_entry_shape[OF some(2) this] obtain kvs i metadata where
      k1: "s = PDict kvs" and k2: "keys kvs = source_keys"
      and k3: "metadata \<in> set (result_metadatas res)"
      and k4: "map_of kvs ''chunk_id'' = Some (dict_get metadata ''chunk_id'' (PInt (int i)))"
      by (elim exE conjE)
    from k3 query_metadatas_subset[OF some(1)] have "metadata \<in> set (metadatas st)"
      by (rule subsetD[rotated])
    with stored have "\<exists>c. metadata = chunk_metadata ev c" by (rule bspec)
    then obtain c where "metadata = chunk_metadata ev c" by (elim exE)
    with k4 have "map_of kvs ''chunk_id'' =
        Some (PStr (py_str (str_other ev) (dict_get c ''chunk_id'' (PInt 0))))"
      by (simp add: dict_get_chunk_metadata)
    with k1 k2 show ?thesis by (intro exI conjI)
  qed
qed

text \<open>
  C10. The metadata record that \<open>add_documents\<close> stores for a chunk has exactly the keys
  \<open>source\<close>, \<open>chunk_id\<close> and \<open>title\<close>, so \<open>start_pos\<close>, \<open>end_pos\<close> and \<open>num_pages\<close> are
  not stored; its \<open>chunk_id\<close> is a string, the \<open>str\<close> of the chunk's own, the decimal
  numeral when that is an integer. A call of \<open>add_documents\<close> that returns appends these
  records, one for each chunk, to the metadata it holds. The metadata records of a query
  result are records of the database. Hence, when the records of the database were
  stored by \<open>add_documents\<close>, every source in the response of \<open>answer_question\<close> has
  exactly the five keys of a source, none of them a position, and a string as
  \<open>chunk_id\<close>.
\<close>

theorem stored_metadata_shape:
  "keys (chunk_metadata ev chunk) = [''source'', ''chunk_id'', ''title''] \<and>
   map_of (chunk_metadata ev chunk) ''chunk_id'' =
     Some (PStr (py_str (str_other ev) (dict_get chunk ''chunk_id'' (PInt 0)))) \<and>
   (\<forall>n. map_of chunk ''chunk_id'' = Some (PInt n) \<longrightarrow>
      map_of (chunk_metadata ev chunk) ''chunk_id'' = Some (PStr (py_str (str_other ev) (PInt n))) \<and>
      py_str (str_other ev) (PInt n) = (if n < 0 then 45 # digits (nat (- n)) else digits (nat n))) \<and>
   (\<forall>st chunks name st'. add_documents ev st chunks name = (None, st') \<longrightarrow>
      (\<exists>old. metadatas st' = old @ map (chunk_metadata ev) chunks)) \<and>
   (\<forall>st query_text k r. query ev st query_text k = Inr r \<longrightarrow>
      set (result_metadatas r) \<subseteq> set (metadatas st)) \<and>
   (\<forall>st question k r sources s.
      (\<forall>m \<in> set (metadatas st). \<exists>c. m = chunk_metadata ev c) \<and>
      answer_question ev st question k = Inr r \<and>
      map_of r ''sources'' = Some (PList sources) \<and> s \<in> set sources \<longrightarrow>
      (\<exists>kvs cid. s = PDict kvs \<and> keys kvs = source_keys \<and>
         map_of kvs ''chunk_id'' = Some (PStr cid)))"
proof (intro conjI allI impI)
  show "keys (chunk_metadata ev chunk) = [''source'', ''chunk_id'', ''title'']"
    by (rule chunk_metadata_keys)
  show "map_of (chunk_metadata ev chunk) ''chunk_id'' =
     Some (PStr (py_str (str_other ev) (dict_get chunk ''chunk_id'' (PInt 0))))"
    by (rule chunk_metadata_chunk_id)
next
  fix n assume "map_of chunk ''chunk_id'' = Some (PInt n)"
  then show "map_of (chunk_metadata ev chunk) ''chunk_id'' = Some (PStr (py_str (str_other ev) (PInt n)))"
    by (simp add: chunk_metadata_def dict_get_def)
  show "py_str (str_other ev) (PInt n) = (if n < 0 then 45 # digits (nat (- n)) else digits (nat n))"
    by (simp add: py_str_def)
next
  fix st chunks name st' assume "add_documents ev st chunks name = (None, st')"
  then show "\<exists>old. metadatas st' = old @ map (chunk_metadata ev) chunks"
    by (rule add_documents_metadatas)
next
  fix st query_text k r assume "query ev st query_text k = Inr r"
  then show "set (result_metadatas r) \<subseteq> set (metadatas st)"
    by (rule query_metadatas_subset)
next
  fix st question k r sources s
  assume h: "(\<forall>m \<in> set (metadatas st). \<exists>c. m = chunk_metadata ev c) \<and>
      answer_question ev st question k = Inr r \<and>
      map_of r ''sources'' = Some (PList sources) \<and> s \<in> set sources"
  show "\<exists>kvs cid. s = PDict kvs \<and> keys kvs = source_keys \<and>
         map_of kvs ''chunk_id'' = Some (PStr cid)"
    by (rule sources_chunk_id_string[of st ev question k r sources s]) (simp_all add: h)
qed

lemma add_documents_example:
  "add_documents example_env (init_db empty_disk) example_chunks (lit ''documents'') = (None, example_db)"
proof -
  have "fst (add_documents example_env (init_db empty_disk) example_chunks (lit ''documents'')) = None"
  proof -
    have texts: "try_map (\<lambda>chunk. dict_item chunk ''text'') example_chunks =
        Inr [PStr (lit ''bbb''), PStr (lit ''a''), PStr (lit ''ccc'')]"
      by (simp add: example_chunks_def dict_item_def)
    have embs: "get_batch_embeddings example_env [PStr (lit ''bbb''), PStr (lit ''a''), PStr (lit ''ccc'')] =
        Inr [3 # replicate 383 0, 1 # replicate 383 0, 3 # replicate 383 0]"
      by (simp add: get_batch_embeddings_def get_embedding_example np_array_def lit_def)
    have st1: "create_collection (init_db empty_disk) (lit ''documents'') =
        \<lparr> index = Some (IndexFlatL2 384), documents = [], metadatas = [],
          collection_name = Some (lit ''documents''), files = empty_disk \<rparr>"
      by (simp add: create_collection_def init_db_def empty_disk_def new_collection_def
          embedding_dim_def Let_def)
    have add: "index_add (IndexFlatL2 384) [3 # replicate 383 0, 1 # replicate 383 0, 3 # replicate 383 0]
        = Inr example_index"
      by (simp add: index_add_def IndexFlatL2_def example_index_def)
    show ?thesis
      by (simp add: add_documents_def Let_def st1[unfolded init_db_def] init_db_def texts embs add)
  qed
  moreover have "snd (add_documents example_env (init_db empty_disk) example_chunks (lit ''documents'')) = example_db"
    by (simp add: example_db_def run_def)
  ultimately show ?thesis by (simp add: prod_eq_iff)
qed

text \<open>
  An instance: the third example chunk has the integer \<open>chunk_id\<close> 12 and is stored with
  the string \<open>12\<close>, which is what the source in the answer carries.
\<close>

theorem stored_metadata_shape_witness:
  "map_of (example_chunks ! 2) ''chunk_id'' = Some (PInt 12) \<and>
   map_of (chunk_metadata example_env (example_chunks ! 2)) ''chunk_id'' = Some (PStr (lit ''12'')) \<and>
   keys (chunk_metadata example_env (example_chunks ! 2)) = [''source'', ''chunk_id'', ''title''] \<and>
   add_documents example_env (init_db empty_disk) example_chunks (lit ''documents'') = (None, example_db) \<and>
   (\<exists>old. metadatas example_db = old @ map (chunk_metadata example_env) example_chunks) \<and>
   query example_env example_db (lit ''ddd'') 2 =
     Inr \<lparr> result_documents = [PStr (lit ''bbb''), PStr (lit ''ccc'')],
           result_metadatas = [example_metadatas ! 0, example_metadatas ! 2],
           result_distances = [0, 0] \<rparr> \<and>
   set [example_metadatas ! 0, example_metadatas ! 2] \<subseteq> set (metadatas example_db) \<and>
   metadatas example_db = map (chunk_metadata example_env) example_chunks \<and>
   answer_question example_env example_db (lit ''ddd'') 2 = Inr example_answer \<and>
   map_of example_answer ''sources'' = Some (PList example_sources) \<and>
   length example_sources = 2 \<and>
   (\<exists>kvs cid. example_sources ! 0 = PDict kvs \<and> keys kvs = source_keys \<and>
         map_of kvs ''chunk_id'' = Some (PStr cid)) \<and>
   (\<exists>kvs cid. example_sources ! 1 = PDict kvs \<and> keys kvs = source_keys \<and>
         map_of kvs ''chunk_id'' = Some (PStr cid))"
proof -
  note T = stored_metadata_shape[of example_env "example_chunks ! 2"]
  have h1: "map_of (example_chunks ! 2) ''chunk_id'' = Some (PInt 12)"
    by (simp add: example_chunks_def)
  from T[THEN conjunct2, THEN conjunct2, THEN conjunct1, rule_format, OF h1]
  have c1: "map_of (chunk_metadata example_env (example_chunks ! 2)) ''chunk_id'' = Some (PStr (lit ''12''))"
    by (simp add: digits.simps lit_def)
  from T have c2: "keys (chunk_metadata example_env (example_chunks ! 2)) = [''source'', ''chunk_id'', ''title'']"
    by (rule conjunct1)
  have h3: "add_documents example_env (init_db empty_disk) example_chunks (lit ''documents'') = (None, example_db)"
    by (rule add_documents_example)
  from T[THEN conjunct2, THEN conjunct2, THEN conjunct2, THEN conjunct1, rule_format, OF h3]
  have c3: "\<exists>old. metadatas example_db = old @ map (chunk_metadata example_env) example_chunks" .
  have h4: "query example_env example_db (lit ''ddd'') 2 =
     Inr \<lparr> result_documents = [PStr (lit ''bbb''), PStr (lit ''ccc'')],
           result_metadatas = [example_metadatas ! 0, example_metadatas ! 2],
           result_distances = [0, 0] \<rparr>"
    by (rule query_example)
  from T[THEN conjunct2, THEN conjunct2, THEN conjunct2, THEN conjunct2, THEN conjunct1, rule_format, OF h4]
  have c4: "set [example_metadatas ! 0, example_metadatas ! 2] \<subseteq> set (metadatas example_db)"
    by simp
  have g5: "metadatas example_db = map (chunk_metadata example_env) example_chunks"
    by (simp add: example_db_eq example_metadatas_eq)
  then have h5: "\<forall>m \<in> set (metadatas example_db). \<exists>c. m = chunk_metadata example_env c"
    by (simp only: set_map) blast
  have h6: "answer_question example_env example_db (lit ''ddd'') 2 = Inr example_answer"
    by (rule answer_example)
  have h7: "map_of example_answer ''sources'' = Some (PList example_sources)"
    by (simp add: example_answer_def)
  have len: "length example_sources = 2" by (simp add: example_sources_def)
  have c5: "\<exists>kvs cid. s = PDict kvs \<and> keys kvs = source_keys \<and>
         map_of kvs ''chunk_id'' = Some (PStr cid)" if "s \<in> set example_sources" for s
    using h5 h6 h7 that
    by (intro T[THEN conjunct2, THEN conjunct2, THEN conjunct2, THEN conjunct2, THEN conjunct2,
          rule_format, of example_db "lit ''ddd''" 2 example_answer example_sources s] conjI)
  have c6: "\<exists>kvs cid. example_sources ! 0 = PDict kvs \<and> keys kvs = source_keys \<and>
         map_of kvs ''chunk_id'' = Some (PStr cid)"
    by (rule c5) (simp add: example_sources_def)
  have c7: "\<exists>kvs cid. example_sources ! 1 = PDict kvs \<and> keys kvs = source_keys \<and>
         map_of kvs ''chunk_id'' = Some (PStr cid)"
    by (rule c5) (simp add: example_sources_def)
  from h1 c1 c2 h3 c3 h4 c4 g5 h6 h7 len c6 c7 show ?thesis by (intro conjI)
qed

end
